theory Spec2Isabelle
  imports Main
begin

section \<open>QuickDesk: ticket lifecycle, vote ledger and permission-filtered queries\<close>

text \<open>
  A shallow embedding of the ticket core of the QuickDesk help desk
  (\<^verbatim>\<open>Server/models.py\<close>, \<^verbatim>\<open>Server/services.py\<close>, \<^verbatim>\<open>Server/api.py\<close>).

  \<^item> A mapped class is a record, a table is the list of its rows in insertion order, and the
    database session is the record \<open>DB\<close> of all tables. Every service method takes the
    database and returns the database after its commits, next to its result.
  \<^item> \<^verbatim>\<open>query.filter_by(...).first()\<close> is \<open>find\<close> on the table; a method that returns
    \<^verbatim>\<open>None\<close> returns \<open>None\<close>.
  \<^item> Python integers are \<open>int\<close>. Python truthiness is written out: an \<^verbatim>\<open>Optional[int]\<close>
    is true when it is neither \<^verbatim>\<open>None\<close> nor \<open>0\<close>, a string when it is not empty.
  \<^item> A timestamp is a natural number. Each operation receives the reading of
    \<^verbatim>\<open>datetime.utcnow()\<close> as its argument \<open>now\<close>: the readings made while one request is
    served are identified. The \<^verbatim>\<open>onupdate\<close> hook of the \<^verbatim>\<open>updated_at\<close> columns is not
    part of the services and is not modelled; only the assignments the services make are.
  \<^item> An exception that a method lets escape is the left summand of its result; the commits
    made before it are kept in the returned database.
  \<^item> Foreign keys are not enforced, as with the SQLite engine that \<^verbatim>\<open>database.py\<close>
    configures by default: a row may name a user or a category that does not exist, and
    the relationship is then \<^verbatim>\<open>None\<close>.
  \<^item> Requests are served one at a time: a service method runs from its first query to its
    last commit without another request in between.
  \<^item> File attachments, password hashing, token handling and e-mail delivery are outside the
    ticket core and are left out.
\<close>

subsection \<open>models.py\<close>

datatype UserRole = END_USER | SUPPORT_AGENT | ADMIN

datatype TicketStatus = OPEN | IN_PROGRESS | RESOLVED | CLOSED

datatype TicketPriority = LOW | MEDIUM | HIGH | URGENT

text \<open>The \<^verbatim>\<open>.value\<close> of each enumeration member.\<close>

fun role_value :: "UserRole \<Rightarrow> string" where
  "role_value END_USER = ''end_user''"
| "role_value SUPPORT_AGENT = ''support_agent''"
| "role_value ADMIN = ''admin''"

fun status_value :: "TicketStatus \<Rightarrow> string" where
  "status_value OPEN = ''open''"
| "status_value IN_PROGRESS = ''in_progress''"
| "status_value RESOLVED = ''resolved''"
| "status_value CLOSED = ''closed''"

fun priority_value :: "TicketPriority \<Rightarrow> string" where
  "priority_value LOW = ''low''"
| "priority_value MEDIUM = ''medium''"
| "priority_value HIGH = ''high''"
| "priority_value URGENT = ''urgent''"

text \<open>The \<^verbatim>\<open>.name\<close> of a member, which is what an \<^verbatim>\<open>SQLEnum\<close> column stores.\<close>

fun status_name :: "TicketStatus \<Rightarrow> string" where
  "status_name OPEN = ''OPEN''"
| "status_name IN_PROGRESS = ''IN_PROGRESS''"
| "status_name RESOLVED = ''RESOLVED''"
| "status_name CLOSED = ''CLOSED''"

fun priority_name :: "TicketPriority \<Rightarrow> string" where
  "priority_name LOW = ''LOW''"
| "priority_name MEDIUM = ''MEDIUM''"
| "priority_name HIGH = ''HIGH''"
| "priority_name URGENT = ''URGENT''"

type_synonym datetime = nat

record User =
  u_id :: int
  u_username :: string
  u_email :: string
  u_full_name :: string
  u_role :: UserRole
  u_is_active :: bool

record Category =
  c_id :: int
  c_name :: string
  c_description :: string
  c_color :: string
  c_is_active :: bool

record Ticket =
  t_id :: int
  t_subject :: string
  t_description :: string
  t_status :: TicketStatus
  t_priority :: TicketPriority
  t_created_by_id :: int
  t_assigned_to_id :: "int option"
  t_category_id :: int
  t_created_at :: datetime
  t_updated_at :: datetime
  t_resolved_at :: "datetime option"
  t_closed_at :: "datetime option"
  t_upvotes :: int
  t_downvotes :: int

record TicketComment =
  m_id :: int
  m_content :: string
  m_is_internal :: bool
  m_ticket_id :: int
  m_author_id :: int
  m_created_at :: datetime
  m_updated_at :: datetime

record TicketVote =
  v_id :: int
  v_is_upvote :: bool
  v_ticket_id :: int
  v_user_id :: int
  v_created_at :: datetime
  v_updated_at :: datetime

record Notification =
  n_id :: int
  n_title :: string
  n_message :: string
  n_notification_type :: string
  n_is_read :: bool
  n_is_email_sent :: bool
  n_user_id :: int
  n_ticket_id :: "int option"
  n_created_at :: datetime

record DB =
  users :: "User list"
  categories :: "Category list"
  tickets :: "Ticket list"
  comments :: "TicketComment list"
  votes :: "TicketVote list"
  notifications :: "Notification list"

text \<open>
  The integer primary key of a new row: one more than the largest key of the table, and
  \<open>1\<close> for an empty table.
\<close>

definition next_id :: "int list \<Rightarrow> int" where
  "next_id ids = fold max ids 0 + 1"

text \<open>Python truthiness of an \<^verbatim>\<open>Optional[int]\<close> and of an \<^verbatim>\<open>Optional[str]\<close>.\<close>

fun truthy_int :: "int option \<Rightarrow> bool" where
  "truthy_int None = False"
| "truthy_int (Some i) = (i \<noteq> 0)"

fun truthy_str :: "string option \<Rightarrow> bool" where
  "truthy_str None = False"
| "truthy_str (Some s) = (s \<noteq> [])"

text \<open>The relationships of a ticket: rows of the other tables found by foreign key.\<close>

definition creator :: "DB \<Rightarrow> Ticket \<Rightarrow> User option" where
  "creator db t = find (\<lambda>u. u_id u = t_created_by_id t) (users db)"

definition assignee :: "DB \<Rightarrow> Ticket \<Rightarrow> User option" where
  "assignee db t =
     (case t_assigned_to_id t of
        None \<Rightarrow> None
      | Some a \<Rightarrow> find (\<lambda>u. u_id u = a) (users db))"

definition category :: "DB \<Rightarrow> Ticket \<Rightarrow> Category option" where
  "category db t = find (\<lambda>c. c_id c = t_category_id t) (categories db)"

definition ticket_comments :: "DB \<Rightarrow> Ticket \<Rightarrow> TicketComment list" where
  "ticket_comments db t = filter (\<lambda>m. m_ticket_id m = t_id t) (comments db)"

definition author :: "DB \<Rightarrow> TicketComment \<Rightarrow> User option" where
  "author db m = find (\<lambda>u. u_id u = m_author_id m) (users db)"

text \<open>The two derived properties of \<^verbatim>\<open>Ticket\<close>.\<close>

definition vote_score :: "Ticket \<Rightarrow> int" where
  "vote_score t = t_upvotes t - t_downvotes t"

definition comment_count :: "DB \<Rightarrow> Ticket \<Rightarrow> int" where
  "comment_count db t = int (length (ticket_comments db t))"

text \<open>\<^verbatim>\<open>TicketComment.to_dict\<close>.\<close>

record CommentDict =
  cd_id :: int
  cd_content :: string
  cd_is_internal :: bool
  cd_ticket_id :: int
  cd_author_id :: int
  cd_author_name :: "string option"
  cd_author_role :: "string option"
  cd_created_at :: datetime
  cd_updated_at :: datetime

definition comment_to_dict :: "DB \<Rightarrow> TicketComment \<Rightarrow> CommentDict" where
  "comment_to_dict db m =
     \<lparr> cd_id = m_id m,
       cd_content = m_content m,
       cd_is_internal = m_is_internal m,
       cd_ticket_id = m_ticket_id m,
       cd_author_id = m_author_id m,
       cd_author_name = map_option u_full_name (author db m),
       cd_author_role = map_option (\<lambda>u. role_value (u_role u)) (author db m),
       cd_created_at = m_created_at m,
       cd_updated_at = m_updated_at m \<rparr>"

text \<open>
  \<^verbatim>\<open>Ticket.to_dict\<close>: the common part of the dictionary, then either the flat fields
  (\<^verbatim>\<open>include_relations=False\<close>) or the nested ones (\<^verbatim>\<open>include_relations=True\<close>).
  \<^verbatim>\<open>User.to_dict\<close> and \<^verbatim>\<open>Category.to_dict\<close> copy the fields kept in the records above.
\<close>

record TicketDict =
  td_id :: int
  td_subject :: string
  td_description :: string
  td_status :: string
  td_priority :: string
  td_created_at :: datetime
  td_updated_at :: datetime
  td_resolved_at :: "datetime option"
  td_closed_at :: "datetime option"
  td_upvotes :: int
  td_downvotes :: int
  td_vote_score :: int
  td_comment_count :: int

record TicketFlat = TicketDict +
  td_created_by_id :: int
  td_assigned_to_id :: "int option"
  td_category_id :: int
  td_creator_name :: "string option"
  td_assignee_name :: "string option"
  td_category_name :: "string option"

record TicketNested = TicketDict +
  td_creator :: "User option"
  td_assignee :: "User option"
  td_category :: "Category option"
  td_comments :: "CommentDict list"

definition to_dict :: "DB \<Rightarrow> Ticket \<Rightarrow> TicketFlat" where
  "to_dict db t =
     \<lparr> td_id = t_id t,
       td_subject = t_subject t,
       td_description = t_description t,
       td_status = status_value (t_status t),
       td_priority = priority_value (t_priority t),
       td_created_at = t_created_at t,
       td_updated_at = t_updated_at t,
       td_resolved_at = t_resolved_at t,
       td_closed_at = t_closed_at t,
       td_upvotes = t_upvotes t,
       td_downvotes = t_downvotes t,
       td_vote_score = vote_score t,
       td_comment_count = comment_count db t,
       td_created_by_id = t_created_by_id t,
       td_assigned_to_id = t_assigned_to_id t,
       td_category_id = t_category_id t,
       td_creator_name = map_option u_full_name (creator db t),
       td_assignee_name = map_option u_full_name (assignee db t),
       td_category_name = map_option c_name (category db t) \<rparr>"

definition to_dict_relations :: "DB \<Rightarrow> Ticket \<Rightarrow> TicketNested" where
  "to_dict_relations db t =
     \<lparr> td_id = t_id t,
       td_subject = t_subject t,
       td_description = t_description t,
       td_status = status_value (t_status t),
       td_priority = priority_value (t_priority t),
       td_created_at = t_created_at t,
       td_updated_at = t_updated_at t,
       td_resolved_at = t_resolved_at t,
       td_closed_at = t_closed_at t,
       td_upvotes = t_upvotes t,
       td_downvotes = t_downvotes t,
       td_vote_score = vote_score t,
       td_comment_count = comment_count db t,
       td_creator = creator db t,
       td_assignee = assignee db t,
       td_category = category db t,
       td_comments = map (comment_to_dict db) (ticket_comments db t) \<rparr>"

subsection \<open>services.py: NotificationService\<close>

text \<open>
  \<^verbatim>\<open>create_notification\<close> inserts the row and commits; when the addressed user exists, the
  mail is handed to the e-mail service and the row is marked as sent.
\<close>

definition create_notification ::
  "datetime \<Rightarrow> DB \<Rightarrow> int \<Rightarrow> string \<Rightarrow> string \<Rightarrow> string \<Rightarrow> int option \<Rightarrow> DB" where
  "create_notification now db user_id title message notification_type ticket_id =
     (let notification =
            \<lparr> n_id = next_id (map n_id (notifications db)),
              n_title = title,
              n_message = message,
              n_notification_type = notification_type,
              n_is_read = False,
              n_is_email_sent = (find (\<lambda>u. u_id u = user_id) (users db) \<noteq> None),
              n_user_id = user_id,
              n_ticket_id = ticket_id,
              n_created_at = now \<rparr>
      in db\<lparr>notifications := notifications db @ [notification]\<rparr>)"

datatype py_error = AttributeError | IntegrityError | SQLAlchemyError

text \<open>
  The exceptions the ticket core lets escape: Python's \<^verbatim>\<open>AttributeError\<close>, the
  \<^verbatim>\<open>IntegrityError\<close> of a commit that violates a constraint, and \<^verbatim>\<open>SQLAlchemyError\<close>
  for the other exceptions of the query builder, which are its subclasses.
\<close>

text \<open>
  \<^verbatim>\<open>create_ticket_notification\<close>: one notification for every active admin and support
  agent. The message reads \<^verbatim>\<open>ticket.creator.full_name\<close> and \<^verbatim>\<open>ticket.category.name\<close>
  inside the loop, which raises \<^verbatim>\<open>AttributeError\<close> when the relationship is \<^verbatim>\<open>None\<close>.
\<close>

definition users_to_notify :: "DB \<Rightarrow> User list" where
  "users_to_notify db =
     filter (\<lambda>u. u_role u \<in> {ADMIN, SUPPORT_AGENT} \<and> u_is_active u) (users db)"

fun notify_each :: "datetime \<Rightarrow> DB \<Rightarrow> Ticket \<Rightarrow> User list \<Rightarrow> py_error + DB" where
  "notify_each now db ticket [] = Inr db"
| "notify_each now db ticket (user # rest) =
     (case (creator db ticket, category db ticket) of
        (Some cr, Some cat) \<Rightarrow>
          notify_each now
            (create_notification now db (u_id user)
               (''New Ticket Created: '' @ t_subject ticket)
               (''A new ticket has been created by '' @ u_full_name cr @
                ''. Category: '' @ c_name cat)
               ''ticket_created'' (Some (t_id ticket)))
            ticket rest
      | _ \<Rightarrow> Inl AttributeError)"

definition create_ticket_notification :: "datetime \<Rightarrow> DB \<Rightarrow> Ticket \<Rightarrow> py_error + DB" where
  "create_ticket_notification now db ticket = notify_each now db ticket (users_to_notify db)"

definition create_status_change_notification ::
  "datetime \<Rightarrow> DB \<Rightarrow> Ticket \<Rightarrow> TicketStatus \<Rightarrow> TicketStatus \<Rightarrow> DB" where
  "create_status_change_notification now db ticket old_status new_status =
     create_notification now db (t_created_by_id ticket)
       (''Ticket Status Updated: '' @ t_subject ticket)
       (''Your ticket status has been changed from '' @ status_value old_status @
        '' to '' @ status_value new_status)
       ''status_changed'' (Some (t_id ticket))"

definition create_comment_notification ::
  "datetime \<Rightarrow> DB \<Rightarrow> Ticket \<Rightarrow> TicketComment \<Rightarrow> py_error + DB" where
  "create_comment_notification now db ticket comment =
     (if \<not> m_is_internal comment then
        if m_author_id comment \<noteq> t_created_by_id ticket then
          (case author db comment of
             None \<Rightarrow> Inl AttributeError
           | Some a \<Rightarrow>
               Inr (create_notification now db (t_created_by_id ticket)
                      (''New Comment on Ticket: '' @ t_subject ticket)
                      (u_full_name a @ '' has added a comment to your ticket'')
                      ''comment_added'' (Some (t_id ticket))))
        else Inr db
      else Inr db)"

subsection \<open>services.py: TicketService\<close>

text \<open>Writing a changed ticket back: the row with its primary key is replaced.\<close>

definition put_ticket :: "Ticket \<Rightarrow> DB \<Rightarrow> DB" where
  "put_ticket t db =
     db\<lparr>tickets := map (\<lambda>x. if t_id x = t_id t then t else x) (tickets db)\<rparr>"

text \<open>
  \<^verbatim>\<open>create_ticket\<close>: the row is inserted with the column defaults (no assignee, no
  resolution or closing time, both counters \<open>0\<close>) and committed, then the notifications are
  sent. The result is the database after the last commit and either the exception of the
  notification step or the ticket.
\<close>

definition create_ticket ::
  "datetime \<Rightarrow> DB \<Rightarrow> string \<Rightarrow> string \<Rightarrow> int \<Rightarrow> int \<Rightarrow> TicketPriority \<Rightarrow>
     DB \<times> (py_error + Ticket)" where
  "create_ticket now db subject description category_id created_by_id priority =
     (let ticket =
            \<lparr> t_id = next_id (map t_id (tickets db)),
              t_subject = subject,
              t_description = description,
              t_status = OPEN,
              t_priority = priority,
              t_created_by_id = created_by_id,
              t_assigned_to_id = None,
              t_category_id = category_id,
              t_created_at = now,
              t_updated_at = now,
              t_resolved_at = None,
              t_closed_at = None,
              t_upvotes = 0,
              t_downvotes = 0 \<rparr>;
          db1 = db\<lparr>tickets := tickets db @ [ticket]\<rparr>
      in case create_ticket_notification now db1 ticket of
           Inl e \<Rightarrow> (db1, Inl e)
         | Inr db2 \<Rightarrow> (db2, Inr ticket))"

text \<open>
  \<^verbatim>\<open>create_ticket\<close> called with \<^verbatim>\<open>None\<close> for the subject, the description or the
  category: the columns are declared \<^verbatim>\<open>nullable=False\<close>, so the commit of the insertion
  raises \<^verbatim>\<open>IntegrityError\<close> and nothing is stored.
\<close>

definition create_ticket_call ::
  "datetime \<Rightarrow> DB \<Rightarrow> string option \<Rightarrow> string option \<Rightarrow> int option \<Rightarrow> int \<Rightarrow> TicketPriority \<Rightarrow>
     DB \<times> (py_error + Ticket)" where
  "create_ticket_call now db subject description category_id created_by_id priority =
     (case (subject, description, category_id) of
        (Some s, Some d, Some c) \<Rightarrow> create_ticket now db s d c created_by_id priority
      | _ \<Rightarrow> (db, Inl IntegrityError))"

text \<open>\<^verbatim>\<open>get_ticket_by_id\<close>, with its permission check.\<close>

definition get_ticket_by_id :: "DB \<Rightarrow> int \<Rightarrow> int option \<Rightarrow> UserRole option \<Rightarrow> Ticket option" where
  "get_ticket_by_id db ticket_id user_id user_role =
     (case find (\<lambda>t. t_id t = ticket_id) (tickets db) of
        None \<Rightarrow> None
      | Some ticket \<Rightarrow>
          if user_role = Some END_USER then
            if Some (t_created_by_id ticket) \<noteq> user_id then None else Some ticket
          else Some ticket)"

text \<open>\<^verbatim>\<open>update_ticket_status\<close>. The argument \<^verbatim>\<open>updated_by_id\<close> is not used by the method.\<close>

definition update_ticket_status ::
  "datetime \<Rightarrow> DB \<Rightarrow> int \<Rightarrow> TicketStatus \<Rightarrow> int \<Rightarrow> DB \<times> Ticket option" where
  "update_ticket_status now db ticket_id status updated_by_id =
     (case find (\<lambda>t. t_id t = ticket_id) (tickets db) of
        None \<Rightarrow> (db, None)
      | Some ticket0 \<Rightarrow>
          (let old_status = t_status ticket0;
               ticket1 = ticket0\<lparr>t_status := status, t_updated_at := now\<rparr>;
               ticket =
                 (if status = RESOLVED then ticket1\<lparr>t_resolved_at := Some now\<rparr>
                  else if status = CLOSED then ticket1\<lparr>t_closed_at := Some now\<rparr>
                  else ticket1);
               db1 = put_ticket ticket db
           in if old_status \<noteq> status
              then (create_status_change_notification now db1 ticket old_status status,
                    Some ticket)
              else (db1, Some ticket)))"

text \<open>\<^verbatim>\<open>assign_ticket\<close>. The test \<^verbatim>\<open>and assigned_to_id\<close> is Python truthiness.\<close>

definition assign_ticket :: "datetime \<Rightarrow> DB \<Rightarrow> int \<Rightarrow> int option \<Rightarrow> DB \<times> Ticket option" where
  "assign_ticket now db ticket_id assigned_to_id =
     (case find (\<lambda>t. t_id t = ticket_id) (tickets db) of
        None \<Rightarrow> (db, None)
      | Some ticket0 \<Rightarrow>
          (let ticket1 = ticket0\<lparr>t_assigned_to_id := assigned_to_id, t_updated_at := now\<rparr>;
               ticket =
                 (if t_status ticket1 = OPEN \<and> truthy_int assigned_to_id
                  then ticket1\<lparr>t_status := IN_PROGRESS\<rparr>
                  else ticket1)
           in (put_ticket ticket db, Some ticket)))"

text \<open>
  \<^verbatim>\<open>add_comment\<close>: the comment and the ticket's \<^verbatim>\<open>updated_at\<close> are committed, then the
  notification step runs; the message of the notification reads \<^verbatim>\<open>comment.author.full_name\<close>.
\<close>

definition add_comment ::
  "datetime \<Rightarrow> DB \<Rightarrow> int \<Rightarrow> string \<Rightarrow> int \<Rightarrow> bool \<Rightarrow> DB \<times> (py_error + TicketComment) option" where
  "add_comment now db ticket_id content author_id is_internal =
     (case find (\<lambda>t. t_id t = ticket_id) (tickets db) of
        None \<Rightarrow> (db, None)
      | Some ticket0 \<Rightarrow>
          (let comment =
                 \<lparr> m_id = next_id (map m_id (comments db)),
                   m_content = content,
                   m_is_internal = is_internal,
                   m_ticket_id = ticket_id,
                   m_author_id = author_id,
                   m_created_at = now,
                   m_updated_at = now \<rparr>;
               ticket = ticket0\<lparr>t_updated_at := now\<rparr>;
               db1 = put_ticket ticket (db\<lparr>comments := comments db @ [comment]\<rparr>)
           in case create_comment_notification now db1 ticket comment of
                Inl e \<Rightarrow> (db1, Some (Inl e))
              | Inr db2 \<Rightarrow> (db2, Some (Inr comment))))"

text \<open>\<^verbatim>\<open>vote_ticket\<close>: the vote ledger.\<close>

record VoteResult =
  action :: string
  vote_type :: string
  r_upvotes :: int
  r_downvotes :: int
  r_vote_score :: int

definition vote_result :: "string \<Rightarrow> bool \<Rightarrow> Ticket \<Rightarrow> VoteResult" where
  "vote_result act is_upvote ticket =
     \<lparr> action = act,
       vote_type = (if is_upvote then ''upvote'' else ''downvote''),
       r_upvotes = t_upvotes ticket,
       r_downvotes = t_downvotes ticket,
       r_vote_score = vote_score ticket \<rparr>"

definition vote_ticket :: "datetime \<Rightarrow> DB \<Rightarrow> int \<Rightarrow> int \<Rightarrow> bool \<Rightarrow> DB \<times> VoteResult option" where
  "vote_ticket now db ticket_id user_id is_upvote =
     (case find (\<lambda>t. t_id t = ticket_id) (tickets db) of
        None \<Rightarrow> (db, None)
      | Some ticket \<Rightarrow>
          (case find (\<lambda>v. v_ticket_id v = ticket_id \<and> v_user_id v = user_id) (votes db) of
             Some existing_vote \<Rightarrow>
               if v_is_upvote existing_vote = is_upvote then
                 (let votes1 = filter (\<lambda>v. v_id v \<noteq> v_id existing_vote) (votes db);
                      ticket1 =
                        (if is_upvote
                         then ticket\<lparr>t_upvotes := max 0 (t_upvotes ticket - 1)\<rparr>
                         else ticket\<lparr>t_downvotes := max 0 (t_downvotes ticket - 1)\<rparr>)
                  in (put_ticket ticket1 (db\<lparr>votes := votes1\<rparr>),
                      Some (vote_result ''removed'' is_upvote ticket1)))
               else
                 (let vote1 = existing_vote\<lparr>v_is_upvote := is_upvote, v_updated_at := now\<rparr>;
                      votes1 = map (\<lambda>v. if v_id v = v_id existing_vote then vote1 else v) (votes db);
                      ticket1 =
                        (if is_upvote
                         then ticket\<lparr>t_upvotes := t_upvotes ticket + 1,
                                     t_downvotes := max 0 (t_downvotes ticket - 1)\<rparr>
                         else ticket\<lparr>t_downvotes := t_downvotes ticket + 1,
                                     t_upvotes := max 0 (t_upvotes ticket - 1)\<rparr>)
                  in (put_ticket ticket1 (db\<lparr>votes := votes1\<rparr>),
                      Some (vote_result ''changed'' is_upvote ticket1)))
           | None \<Rightarrow>
               (let vote =
                      \<lparr> v_id = next_id (map v_id (votes db)),
                        v_is_upvote = is_upvote,
                        v_ticket_id = ticket_id,
                        v_user_id = user_id,
                        v_created_at = now,
                        v_updated_at = now \<rparr>;
                    ticket1 =
                      (if is_upvote
                       then ticket\<lparr>t_upvotes := t_upvotes ticket + 1\<rparr>
                       else ticket\<lparr>t_downvotes := t_downvotes ticket + 1\<rparr>)
                in (put_ticket ticket1 (db\<lparr>votes := votes db @ [vote]\<rparr>),
                    Some (vote_result ''added'' is_upvote ticket1)))))"

text \<open>
  \<^verbatim>\<open>get_tickets\<close>. The operators of the storage engine it relies on are those of SQLite,
  the engine \<^verbatim>\<open>database.py\<close> configures by default:
  \<^item> \<^verbatim>\<open>ilike\<close> compares the lower-cased operands with \<^verbatim>\<open>LIKE\<close>, where \<^verbatim>\<open>%\<close> stands for
    any run of characters and \<^verbatim>\<open>_\<close> for any single one;
  \<^item> \<^verbatim>\<open>ORDER BY\<close> compares \<^verbatim>\<open>NULL\<close> below every number and numbers below text, and
    is taken to keep rows with equal keys in table order;
  \<^item> a negative \<^verbatim>\<open>LIMIT\<close> is no limit and a negative \<^verbatim>\<open>OFFSET\<close> is \<open>0\<close>.
\<close>

definition lower_char :: "char \<Rightarrow> char" where
  "lower_char c =
     (let n = (of_char c :: nat) in if 65 \<le> n \<and> n \<le> 90 then char_of (n + 32) else c)"

fun like :: "string \<Rightarrow> string \<Rightarrow> bool" where
  "like [] s = (s = [])"
| "like (p # ps) [] = (p = CHR ''%'' \<and> like ps [])"
| "like (p # ps) (c # cs) =
     (if p = CHR ''%'' then like ps (c # cs) \<or> like (p # ps) cs
      else (p = CHR ''_'' \<or> p = c) \<and> like ps cs)"

definition ilike :: "string \<Rightarrow> string \<Rightarrow> bool" where
  "ilike s pattern = like (map lower_char pattern) (map lower_char s)"

datatype sql_value = Null | IntV int | StrV string

fun str_le :: "string \<Rightarrow> string \<Rightarrow> bool" where
  "str_le [] _ = True"
| "str_le (a # as) [] = False"
| "str_le (a # as) (b # bs) =
     ((of_char a :: nat) < of_char b \<or> (a = b \<and> str_le as bs))"

fun sql_le :: "sql_value \<Rightarrow> sql_value \<Rightarrow> bool" where
  "sql_le Null _ = True"
| "sql_le (IntV i) Null = False"
| "sql_le (IntV i) (IntV j) = (i \<le> j)"
| "sql_le (IntV i) (StrV s) = True"
| "sql_le (StrV s) (StrV r) = str_le s r"
| "sql_le (StrV s) _ = False"

fun insert_by :: "('a \<Rightarrow> 'a \<Rightarrow> bool) \<Rightarrow> 'a \<Rightarrow> 'a list \<Rightarrow> 'a list" where
  "insert_by le x [] = [x]"
| "insert_by le x (y # ys) = (if le x y then x # y # ys else y # insert_by le x ys)"

definition order_by :: "('a \<Rightarrow> sql_value) \<Rightarrow> bool \<Rightarrow> 'a list \<Rightarrow> 'a list" where
  "order_by key descending rows =
     foldr (insert_by (\<lambda>a b. if descending then sql_le (key b) (key a)
                              else sql_le (key a) (key b))) rows []"

definition opt_int :: "int option \<Rightarrow> sql_value" where
  "opt_int v = (case v of None \<Rightarrow> Null | Some i \<Rightarrow> IntV i)"

definition opt_time :: "datetime option \<Rightarrow> sql_value" where
  "opt_time v = (case v of None \<Rightarrow> Null | Some d \<Rightarrow> IntV (int d))"

text \<open>
  The attributes that class \<^verbatim>\<open>Ticket\<close> declares in \<^verbatim>\<open>models.py\<close>, by name: the columns
  with their values, and the names that are no columns (the table name, the relationships,
  the two properties and \<^verbatim>\<open>to_dict\<close>). For a declared name \<^verbatim>\<open>hasattr(Ticket, name)\<close> is
  true. \<^verbatim>\<open>None\<close> stands for a name the class does not have; the names the class inherits
  from the declarative base and from \<^verbatim>\<open>object\<close> are not listed.
\<close>

datatype attribute = Column "Ticket \<Rightarrow> sql_value" | NotAColumn

definition ticket_attribute :: "string \<Rightarrow> attribute option" where
  "ticket_attribute name =
     (if name = ''id'' then Some (Column (\<lambda>t. IntV (t_id t)))
      else if name = ''subject'' then Some (Column (\<lambda>t. StrV (t_subject t)))
      else if name = ''description'' then Some (Column (\<lambda>t. StrV (t_description t)))
      else if name = ''status'' then Some (Column (\<lambda>t. StrV (status_name (t_status t))))
      else if name = ''priority'' then Some (Column (\<lambda>t. StrV (priority_name (t_priority t))))
      else if name = ''created_by_id'' then Some (Column (\<lambda>t. IntV (t_created_by_id t)))
      else if name = ''assigned_to_id'' then Some (Column (\<lambda>t. opt_int (t_assigned_to_id t)))
      else if name = ''category_id'' then Some (Column (\<lambda>t. IntV (t_category_id t)))
      else if name = ''created_at'' then Some (Column (\<lambda>t. IntV (int (t_created_at t))))
      else if name = ''updated_at'' then Some (Column (\<lambda>t. IntV (int (t_updated_at t))))
      else if name = ''resolved_at'' then Some (Column (\<lambda>t. opt_time (t_resolved_at t)))
      else if name = ''closed_at'' then Some (Column (\<lambda>t. opt_time (t_closed_at t)))
      else if name = ''upvotes'' then Some (Column (\<lambda>t. IntV (t_upvotes t)))
      else if name = ''downvotes'' then Some (Column (\<lambda>t. IntV (t_downvotes t)))
      else if name \<in> {''__tablename__'', ''creator'', ''assignee'', ''category'', ''comments'',
                       ''attachments'', ''votes'', ''vote_score'', ''comment_count'',
                       ''to_dict''}
      then Some NotAColumn
      else None)"

text \<open>
  The key of the \<^verbatim>\<open>replies\<close> ordering: the outer join with the grouped comment counts
  leaves \<^verbatim>\<open>NULL\<close> for a ticket without comments.
\<close>

definition replies_key :: "DB \<Rightarrow> Ticket \<Rightarrow> sql_value" where
  "replies_key db t =
     (if ticket_comments db t = [] then Null else IntV (int (length (ticket_comments db t))))"

text \<open>
  The sorting step of \<^verbatim>\<open>get_tickets\<close>. In its last branch a name that
  \<^verbatim>\<open>hasattr(Ticket, sort_by)\<close> accepts is handed to \<^verbatim>\<open>order_by\<close>; for an attribute that
  is no column the query builder raises, and the exception escapes \<^verbatim>\<open>get_tickets\<close>.
\<close>

definition apply_sorting ::
  "DB \<Rightarrow> string \<Rightarrow> string \<Rightarrow> Ticket list \<Rightarrow> py_error + Ticket list" where
  "apply_sorting db sort_by sort_order query =
     (if sort_by = ''votes'' then
        Inr (order_by (\<lambda>t. IntV (t_upvotes t - t_downvotes t)) (sort_order = ''desc'') query)
      else if sort_by = ''replies'' then
        Inr (order_by (replies_key db) (sort_order = ''desc'') query)
      else
        (case ticket_attribute sort_by of
           Some (Column col) \<Rightarrow> Inr (order_by col (sort_order = ''desc'') query)
         | Some NotAColumn \<Rightarrow> Inl SQLAlchemyError
         | None \<Rightarrow> Inr query))"

definition paginate :: "int \<Rightarrow> int \<Rightarrow> 'a list \<Rightarrow> 'a list" where
  "paginate offset limit rows =
     (let rest = drop (nat offset) rows in if limit < 0 then rest else take (nat limit) rest)"

text \<open>The query of \<^verbatim>\<open>get_tickets\<close> up to the point where it is counted.\<close>

definition filtered_query ::
  "DB \<Rightarrow> int option \<Rightarrow> UserRole option \<Rightarrow> TicketStatus option \<Rightarrow> int option \<Rightarrow>
     string option \<Rightarrow> Ticket list" where
  "filtered_query db user_id user_role status category_id search =
     (let query0 = tickets db;
          query1 =
            (if user_role = Some END_USER \<and> truthy_int user_id
             then filter (\<lambda>t. Some (t_created_by_id t) = user_id) query0
             else query0);
          query2 =
            (if status \<noteq> None then filter (\<lambda>t. Some (t_status t) = status) query1
             else query1);
          query3 =
            (if truthy_int category_id
             then filter (\<lambda>t. Some (t_category_id t) = category_id) query2
             else query2)
      in case search of
           None \<Rightarrow> query3
         | Some text \<Rightarrow>
             if text \<noteq> [] then
               filter (\<lambda>t. ilike (t_subject t) (''%'' @ text @ ''%'') \<or>
                           ilike (t_description t) (''%'' @ text @ ''%'')) query3
             else query3)"

record Listing =
  l_tickets :: "TicketFlat list"
  l_total_count :: int
  l_limit :: int
  l_offset :: int
  l_has_more :: bool

definition get_tickets ::
  "DB \<Rightarrow> int option \<Rightarrow> UserRole option \<Rightarrow> TicketStatus option \<Rightarrow> int option \<Rightarrow>
     string option \<Rightarrow> string \<Rightarrow> string \<Rightarrow> int \<Rightarrow> int \<Rightarrow> py_error + Listing" where
  "get_tickets db user_id user_role status category_id search sort_by sort_order limit offset =
     (let query = filtered_query db user_id user_role status category_id search;
          total_count = int (length query)
      in case apply_sorting db sort_by sort_order query of
           Inl e \<Rightarrow> Inl e
         | Inr sorted_query \<Rightarrow>
             (let tickets = paginate offset limit sorted_query
              in Inr \<lparr> l_tickets = map (to_dict db) tickets,
                       l_total_count = total_count,
                       l_limit = limit,
                       l_offset = offset,
                       l_has_more = (offset + limit < total_count) \<rparr>))"

subsection \<open>api.py: the ticket endpoints\<close>

text \<open>
  An endpoint receives the authenticated user that \<^verbatim>\<open>require_auth\<close> stored in the request
  and the JSON body, in which a field is either absent or carries a value of the type the
  endpoint expects; in the body of the ticket creation endpoint a field may also be
  present with the value \<^verbatim>\<open>null\<close>. It answers with a status code and a payload, or with a status code and
  an error message. An exception that escapes the endpoint is answered by the handler for
  status 500.
\<close>

record CurrentUser =
  cu_id :: int
  cu_role :: UserRole

datatype 'a response = Success nat 'a | Failure nat string

definition internal_error :: "'a response" where
  "internal_error = Failure 500 ''Internal server error''"

definition status_of_value :: "string \<Rightarrow> TicketStatus option" where
  "status_of_value s = find (\<lambda>x. status_value x = s) [OPEN, IN_PROGRESS, RESOLVED, CLOSED]"

definition api_get_tickets ::
  "DB \<Rightarrow> CurrentUser \<Rightarrow> string option \<Rightarrow> int option \<Rightarrow> string \<Rightarrow> string \<Rightarrow> string \<Rightarrow>
     int \<Rightarrow> int \<Rightarrow> Listing response" where
  "api_get_tickets db cu status category_id search sort_by sort_order limit offset =
     (case (case status of
              None \<Rightarrow> Some None
            | Some s \<Rightarrow> if s = [] then Some None else map_option Some (status_of_value s)) of
        None \<Rightarrow> Failure 400 ''Invalid status''
      | Some status_enum \<Rightarrow>
          (case get_tickets db (Some (cu_id cu)) (Some (cu_role cu)) status_enum category_id
                  (Some search) sort_by sort_order limit offset of
             Inl e \<Rightarrow> internal_error
           | Inr result \<Rightarrow> Success 200 result))"

definition api_get_ticket :: "DB \<Rightarrow> CurrentUser \<Rightarrow> int \<Rightarrow> TicketNested response" where
  "api_get_ticket db cu ticket_id =
     (case get_ticket_by_id db ticket_id (Some (cu_id cu)) (Some (cu_role cu)) of
        None \<Rightarrow> Failure 404 ''Ticket not found or access denied''
      | Some ticket \<Rightarrow> Success 200 (to_dict_relations db ticket))"

text \<open>
  A field of the body of the ticket creation endpoint: absent, present with the JSON value
  \<^verbatim>\<open>null\<close>, or present with a value. \<^verbatim>\<open>data[field]\<close> is \<^verbatim>\<open>None\<close> for \<^verbatim>\<open>null\<close>.
\<close>

datatype 'a json_field = Absent | JsonNull | Value 'a

fun field_value :: "'a json_field \<Rightarrow> 'a option" where
  "field_value Absent = None"
| "field_value JsonNull = None"
| "field_value (Value x) = Some x"

record CreateTicketBody =
  b_subject :: "string json_field"
  b_description :: "string json_field"
  b_category_id :: "int json_field"
  b_priority :: "string json_field"

definition priority_of_value :: "string \<Rightarrow> TicketPriority option" where
  "priority_of_value s = find (\<lambda>p. priority_value p = s) [LOW, MEDIUM, HIGH, URGENT]"

definition api_create_ticket ::
  "datetime \<Rightarrow> DB \<Rightarrow> CurrentUser \<Rightarrow> CreateTicketBody \<Rightarrow> DB \<times> TicketNested response" where
  "api_create_ticket now db cu data =
     (if b_subject data = Absent \<or> b_description data = Absent \<or> b_category_id data = Absent
      then (db, Failure 400 ''Missing required fields'')
      else
        (case (if truthy_str (field_value (b_priority data))
               then (case field_value (b_priority data) of
                       Some s \<Rightarrow> priority_of_value s
                     | None \<Rightarrow> Some MEDIUM)
               else Some MEDIUM) of
           None \<Rightarrow> (db, Failure 400 ''Invalid priority'')
         | Some priority \<Rightarrow>
             (case create_ticket_call now db (field_value (b_subject data))
                     (field_value (b_description data)) (field_value (b_category_id data))
                     (cu_id cu) priority of
                (db1, Inl e) \<Rightarrow> (db1, internal_error)
              | (db1, Inr ticket) \<Rightarrow> (db1, Success 201 (to_dict_relations db1 ticket)))))"

record CommentBody =
  b_content :: "string option"
  b_is_internal :: "bool option"

definition api_add_comment ::
  "datetime \<Rightarrow> DB \<Rightarrow> CurrentUser \<Rightarrow> int \<Rightarrow> CommentBody \<Rightarrow> DB \<times> CommentDict response" where
  "api_add_comment now db cu ticket_id data =
     (if \<not> truthy_str (b_content data) then (db, Failure 400 ''Comment content is required'')
      else
        (case get_ticket_by_id db ticket_id (Some (cu_id cu)) (Some (cu_role cu)) of
           None \<Rightarrow> (db, Failure 404 ''Ticket not found or access denied'')
         | Some ticket \<Rightarrow>
             (let is_internal0 = (case b_is_internal data of None \<Rightarrow> False | Some b \<Rightarrow> b);
                  is_internal =
                    (if is_internal0 \<and> cu_role cu \<notin> {SUPPORT_AGENT, ADMIN} then False
                     else is_internal0);
                  content = (case b_content data of None \<Rightarrow> [] | Some c \<Rightarrow> c)
              in case add_comment now db ticket_id content (cu_id cu) is_internal of
                   (db1, Some (Inr comment)) \<Rightarrow> (db1, Success 201 (comment_to_dict db1 comment))
                 | (db1, _) \<Rightarrow> (db1, internal_error))))"

definition api_vote_ticket ::
  "datetime \<Rightarrow> DB \<Rightarrow> CurrentUser \<Rightarrow> int \<Rightarrow> bool option \<Rightarrow> DB \<times> VoteResult response" where
  "api_vote_ticket now db cu ticket_id is_upvote =
     (case is_upvote of
        None \<Rightarrow> (db, Failure 400 ''Vote type (is_upvote) is required'')
      | Some up \<Rightarrow>
          (case vote_ticket now db ticket_id (cu_id cu) up of
             (db1, None) \<Rightarrow> (db1, Failure 404 ''Ticket not found'')
           | (db1, Some result) \<Rightarrow> (db1, Success 200 result)))"

subsection \<open>Reachable states\<close>

text \<open>
  The requests that change the database. The last one stands for the services outside the
  ticket core (users, categories, reading notifications), which write to their own tables
  only. A reachable state is what a sequence of requests makes of a database without
  tickets, comments and votes.
\<close>

datatype request =
    CreateTicket datetime string string int int TicketPriority
  | UpdateTicketStatus datetime int TicketStatus int
  | AssignTicket datetime int "int option"
  | AddComment datetime int string int bool
  | VoteTicket datetime int int bool
  | Other "User list" "Category list" "Notification list"

fun serve :: "request \<Rightarrow> DB \<Rightarrow> DB" where
  "serve (CreateTicket now subject description category_id created_by_id priority) db =
     fst (create_ticket now db subject description category_id created_by_id priority)"
| "serve (UpdateTicketStatus now ticket_id status updated_by_id) db =
     fst (update_ticket_status now db ticket_id status updated_by_id)"
| "serve (AssignTicket now ticket_id assigned_to_id) db =
     fst (assign_ticket now db ticket_id assigned_to_id)"
| "serve (AddComment now ticket_id content author_id is_internal) db =
     fst (add_comment now db ticket_id content author_id is_internal)"
| "serve (VoteTicket now ticket_id user_id is_upvote) db =
     fst (vote_ticket now db ticket_id user_id is_upvote)"
| "serve (Other us cs ns) db = db\<lparr>users := us, categories := cs, notifications := ns\<rparr>"

definition run :: "request list \<Rightarrow> DB \<Rightarrow> DB" where
  "run requests db = fold serve requests db"

definition initial :: "DB \<Rightarrow> bool" where
  "initial db \<longleftrightarrow> tickets db = [] \<and> comments db = [] \<and> votes db = []"

subsection \<open>Predicates of the specification\<close>

text \<open>The rows of the vote ledger for one ticket and one user.\<close>

definition vote_rows :: "DB \<Rightarrow> int \<Rightarrow> int \<Rightarrow> TicketVote list" where
  "vote_rows db ticket_id user_id =
     filter (\<lambda>v. v_ticket_id v = ticket_id \<and> v_user_id v = user_id) (votes db)"

text \<open>
  The invariant of the ledger that the vote operation maintains: primary keys are not
  repeated, and neither is a pair of ticket and user.
\<close>

definition ledger_inv :: "DB \<Rightarrow> bool" where
  "ledger_inv db \<longleftrightarrow>
     distinct (map v_id (votes db)) \<and>
     distinct (map (\<lambda>v. (v_ticket_id v, v_user_id v)) (votes db))"

definition counters_nonneg :: "DB \<Rightarrow> bool" where
  "counters_nonneg db \<longleftrightarrow>
     list_all (\<lambda>t. 0 \<le> t_upvotes t \<and> 0 \<le> t_downvotes t) (tickets db)"

text \<open>The counters of a ticket agree with the ledger: each counts the rows of its polarity.\<close>

definition ledger_consistent :: "DB \<Rightarrow> Ticket \<Rightarrow> bool" where
  "ledger_consistent db t \<longleftrightarrow>
     t_upvotes t =
       int (length (filter (\<lambda>v. v_ticket_id v = t_id t \<and> v_is_upvote v) (votes db))) \<and>
     t_downvotes t =
       int (length (filter (\<lambda>v. v_ticket_id v = t_id t \<and> \<not> v_is_upvote v) (votes db)))"

subsection \<open>Example data\<close>

text \<open>
  A database with the default administrator and agent of \<^verbatim>\<open>database.py\<close>, two end users
  and one category; a sequence of requests on it; and the database these requests leave.
\<close>

definition example_users :: "User list" where
  "example_users =
     [\<lparr> u_id = 1, u_username = ''admin'', u_email = ''admin@quickdesk.com'',
        u_full_name = ''System Administrator'', u_role = ADMIN, u_is_active = True \<rparr>,
      \<lparr> u_id = 2, u_username = ''agent'', u_email = ''agent@quickdesk.com'',
        u_full_name = ''Support Agent'', u_role = SUPPORT_AGENT, u_is_active = True \<rparr>,
      \<lparr> u_id = 7, u_username = ''user'', u_email = ''user@quickdesk.com'',
        u_full_name = ''End User'', u_role = END_USER, u_is_active = True \<rparr>,
      \<lparr> u_id = 8, u_username = ''other'', u_email = ''other@quickdesk.com'',
        u_full_name = ''Other User'', u_role = END_USER, u_is_active = True \<rparr>]"

definition example_categories :: "Category list" where
  "example_categories =
     [\<lparr> c_id = 1, c_name = ''Technical Support'',
        c_description = ''Technical issues and troubleshooting'', c_color = ''#dc3545'',
        c_is_active = True \<rparr>]"

definition empty_db :: DB where
  "empty_db =
     \<lparr> users = example_users, categories = example_categories, tickets = [],
       comments = [], votes = [], notifications = [] \<rparr>"

definition example_requests :: "request list" where
  "example_requests =
     [CreateTicket 10 ''Printer down'' ''...'' 1 7 HIGH,
      VoteTicket 11 1 7 True,
      VoteTicket 12 1 2 False,
      VoteTicket 13 1 7 False,
      AddComment 14 1 ''Escalate to the vendor'' 2 True]"

definition example_ticket :: Ticket where
  "example_ticket =
     \<lparr> t_id = 1, t_subject = ''Printer down'', t_description = ''...'', t_status = OPEN,
       t_priority = HIGH, t_created_by_id = 7, t_assigned_to_id = None, t_category_id = 1,
       t_created_at = 10, t_updated_at = 14, t_resolved_at = None, t_closed_at = None,
       t_upvotes = 0, t_downvotes = 2 \<rparr>"

definition example_db :: DB where
  "example_db =
     \<lparr> users = example_users,
       categories = example_categories,
       tickets = [example_ticket],
       comments =
         [\<lparr> m_id = 1, m_content = ''Escalate to the vendor'', m_is_internal = True,
            m_ticket_id = 1, m_author_id = 2, m_created_at = 14, m_updated_at = 14 \<rparr>],
       votes =
         [\<lparr> v_id = 1, v_is_upvote = False, v_ticket_id = 1, v_user_id = 7,
            v_created_at = 11, v_updated_at = 13 \<rparr>,
          \<lparr> v_id = 2, v_is_upvote = False, v_ticket_id = 1, v_user_id = 2,
            v_created_at = 12, v_updated_at = 12 \<rparr>],
       notifications =
         [\<lparr> n_id = 1, n_title = ''New Ticket Created: Printer down'',
            n_message =
              ''A new ticket has been created by End User. Category: Technical Support'',
            n_notification_type = ''ticket_created'', n_is_read = False,
            n_is_email_sent = True, n_user_id = 1, n_ticket_id = Some 1, n_created_at = 10 \<rparr>,
          \<lparr> n_id = 2, n_title = ''New Ticket Created: Printer down'',
            n_message =
              ''A new ticket has been created by End User. Category: Technical Support'',
            n_notification_type = ''ticket_created'', n_is_read = False,
            n_is_email_sent = True, n_user_id = 2, n_ticket_id = Some 1, n_created_at = 10 \<rparr>] \<rparr>"

text \<open>A timestamp of resolution or closing that is set in \<open>t\<close> is set in \<open>t'\<close>.\<close>

definition stamps_kept :: "Ticket \<Rightarrow> Ticket \<Rightarrow> bool" where
  "stamps_kept t t' \<longleftrightarrow>
     (t_resolved_at t \<noteq> None \<longrightarrow> t_resolved_at t' \<noteq> None) \<and>
     (t_closed_at t \<noteq> None \<longrightarrow> t_closed_at t' \<noteq> None)"

text \<open>
  The filter steps of \<^verbatim>\<open>get_tickets\<close> as one predicate on a ticket, as the code applies
  them: a step is taken when its argument is true in Python.
\<close>

definition query_filter ::
  "int option \<Rightarrow> UserRole option \<Rightarrow> TicketStatus option \<Rightarrow> int option \<Rightarrow> string option \<Rightarrow>
     Ticket \<Rightarrow> bool" where
  "query_filter user_id user_role status category_id search t \<longleftrightarrow>
     (user_role = Some END_USER \<and> truthy_int user_id \<longrightarrow> Some (t_created_by_id t) = user_id) \<and>
     (status \<noteq> None \<longrightarrow> Some (t_status t) = status) \<and>
     (truthy_int category_id \<longrightarrow> Some (t_category_id t) = category_id) \<and>
     (case search of
        None \<Rightarrow> True
      | Some text \<Rightarrow>
          text = [] \<or> ilike (t_subject t) (''%'' @ text @ ''%'') \<or>
          ilike (t_description t) (''%'' @ text @ ''%''))"

text \<open>
  The set a listing ranges over, in the words of the specification. Visibility: an end
  user sees the tickets they created, every other role sees all. Filters, each optional
  and all conjunctive: the status matches exactly, the category matches exactly, the search
  text occurs in the subject or in the description as a substring, letters compared
  without case.
\<close>

fun starts_with :: "string \<Rightarrow> string \<Rightarrow> bool" where
  "starts_with [] s = True"
| "starts_with (a # as) [] = False"
| "starts_with (a # as) (c # cs) = (a = c \<and> starts_with as cs)"

fun substring :: "string \<Rightarrow> string \<Rightarrow> bool" where
  "substring t [] = (t = [])"
| "substring t (c # cs) = (starts_with t (c # cs) \<or> substring t cs)"

definition substring_ci :: "string \<Rightarrow> string \<Rightarrow> bool" where
  "substring_ci t s = substring (map lower_char t) (map lower_char s)"



text \<open>Three tickets of two end users, for the listing.\<close>

definition listing_requests :: "request list" where
  "listing_requests =
     [CreateTicket 10 ''Printer down'' ''...'' 1 7 HIGH,
      CreateTicket 11 ''VPN access'' ''Cannot connect'' 1 8 MEDIUM,
      CreateTicket 12 ''Screen flickers'' ''Since Monday'' 1 7 LOW]"

text \<open>The status code and the payload of a response.\<close>

fun status_code :: "'a response \<Rightarrow> nat" where
  "status_code (Success code _) = code"
| "status_code (Failure code _) = code"

fun payload :: "'a response \<Rightarrow> 'a option" where
  "payload (Success _ x) = Some x"
| "payload (Failure _ _) = None"

text \<open>
  Two authenticated end users, three request bodies of the ticket creation endpoint, and
  the database of the three listed tickets.
\<close>

definition empty_body :: CreateTicketBody where
  "empty_body =
     \<lparr> b_subject = Value [], b_description = Value [], b_category_id = Value 1,
       b_priority = Absent \<rparr>"

definition end_user_7 :: CurrentUser where
  "end_user_7 = \<lparr> cu_id = 7, cu_role = END_USER \<rparr>"

definition end_user_8 :: CurrentUser where
  "end_user_8 = \<lparr> cu_id = 8, cu_role = END_USER \<rparr>"

definition printer_body :: CreateTicketBody where
  "printer_body =
     \<lparr> b_subject = Value ''Printer down'', b_description = Value ''...'',
       b_category_id = Value 1, b_priority = Value ''high'' \<rparr>"

definition null_body :: CreateTicketBody where
  "null_body =
     \<lparr> b_subject = JsonNull, b_description = Value ''...'', b_category_id = Value 1,
       b_priority = Absent \<rparr>"

definition listing_db :: DB where
  "listing_db = run listing_requests empty_db"

section \<open>Properties\<close>

subsection \<open>Tables and lookups\<close>

lemma find_SomeD: "find P xs = Some x \<Longrightarrow> x \<in> set xs \<and> P x"
  by (induction xs) (auto split: if_splits)

lemma find_None_D: "find P xs = None \<Longrightarrow> x \<in> set xs \<Longrightarrow> \<not> P x"
  by (induction xs) (auto split: if_splits)

lemma find_append_new: "find P xs = None \<Longrightarrow> P x \<Longrightarrow> find P (xs @ [x]) = Some x"
  by (induction xs) (auto split: if_splits)

lemma find_put_ticket:
  "find (\<lambda>x. t_id x = i) ts = Some t0 \<Longrightarrow> t_id t = i \<Longrightarrow>
   find (\<lambda>x. t_id x = i) (map (\<lambda>x. if t_id x = i then t else x) ts) = Some t"
  by (induction ts) (auto split: if_splits)

lemma list_all_put:
  "list_all P ts \<Longrightarrow> P t \<Longrightarrow> list_all P (map (\<lambda>x. if t_id x = i then t else x) ts)"
  by (induction ts) auto

lemma fold_max_ge: "(a::int) \<le> fold max ids a"
  by (induction ids arbitrary: a) (auto intro: order_trans [OF max.cobounded2])

lemma fold_max_mem: "x \<in> set ids \<Longrightarrow> (x::int) \<le> fold max ids a"
proof (induction ids arbitrary: a)
  case Nil
  then show ?case by simp
next
  case (Cons y ys)
  show ?case
  proof (cases "x = y")
    case True
    have "y \<le> max y a" by simp
    also have "\<dots> \<le> fold max ys (max y a)" by (rule fold_max_ge)
    finally show ?thesis using True by simp
  next
    case False
    with Cons show ?thesis by simp
  qed
qed

text \<open>A new primary key is larger than every key of the table.\<close>

lemma next_id_fresh: "x \<in> set ids \<Longrightarrow> x < next_id ids"
  using fold_max_mem [of x ids 0] by (simp add: next_id_def)

lemma tickets_put_ticket [simp]:
  "tickets (put_ticket t db) = map (\<lambda>x. if t_id x = t_id t then t else x) (tickets db)"
  and votes_put_ticket [simp]: "votes (put_ticket t db) = votes db"
  and comments_put_ticket [simp]: "comments (put_ticket t db) = comments db"
  and users_put_ticket [simp]: "users (put_ticket t db) = users db"
  and categories_put_ticket [simp]: "categories (put_ticket t db) = categories db"
  and notifications_put_ticket [simp]: "notifications (put_ticket t db) = notifications db"
  by (simp_all add: put_ticket_def)

lemma create_notification_frame [simp]:
  "users (create_notification now db u ti me ty tk) = users db"
  "categories (create_notification now db u ti me ty tk) = categories db"
  "tickets (create_notification now db u ti me ty tk) = tickets db"
  "comments (create_notification now db u ti me ty tk) = comments db"
  "votes (create_notification now db u ti me ty tk) = votes db"
  by (simp_all add: create_notification_def Let_def)

lemma relations_create_notification [simp]:
  "creator (create_notification now db u ti me ty tk) t = creator db t"
  "category (create_notification now db u ti me ty tk) t = category db t"
  by (simp_all add: creator_def category_def)

lemma notify_each_frame:
  "notify_each now db t us = Inr db' \<Longrightarrow>
     users db' = users db \<and> categories db' = categories db \<and> tickets db' = tickets db \<and>
     comments db' = comments db \<and> votes db' = votes db"
proof (induction us arbitrary: db)
  case Nil
  then show ?case by simp
next
  case (Cons u us)
  then show ?case
    by (auto split: option.splits)
qed

lemma create_ticket_tickets:
  "\<exists>t. tickets (fst (create_ticket now db s d c u p)) = tickets db @ [t] \<and>
       t_upvotes t = 0 \<and> t_downvotes t = 0 \<and> t_id t = next_id (map t_id (tickets db))"
  by (auto simp: create_ticket_def Let_def create_ticket_notification_def
      split: sum.splits dest: notify_each_frame)

lemma create_ticket_votes: "votes (fst (create_ticket now db s d c u p)) = votes db"
  by (auto simp: create_ticket_def Let_def create_ticket_notification_def
      split: sum.splits dest: notify_each_frame)

lemma update_ticket_status_votes:
  "votes (fst (update_ticket_status now db i st u)) = votes db"
  by (auto simp: update_ticket_status_def Let_def create_status_change_notification_def
      split: option.splits)

lemma assign_ticket_votes: "votes (fst (assign_ticket now db i a)) = votes db"
  by (auto simp: assign_ticket_def Let_def split: option.splits)

lemma add_comment_votes: "votes (fst (add_comment now db i c a b)) = votes db"
  by (auto simp: add_comment_def Let_def create_comment_notification_def
      split: option.splits sum.splits if_splits)

text \<open>The example database is the one the example requests produce.\<close>

lemma example_db_reached: "run example_requests empty_db = example_db"
  by code_simp

lemma empty_db_initial: "initial empty_db"
  by (simp add: initial_def empty_db_def)

subsection \<open>The vote ledger\<close>

lemma vote_ticket_result:
  assumes "snd (vote_ticket now db i u up) = Some res"
  shows "\<exists>t. find (\<lambda>t. t_id t = i) (tickets (fst (vote_ticket now db i u up))) = Some t \<and>
             r_upvotes res = t_upvotes t \<and> r_downvotes res = t_downvotes t \<and>
             r_vote_score res = vote_score t"
proof (cases "find (\<lambda>t. t_id t = i) (tickets db)")
  case None
  with assms show ?thesis by (simp add: vote_ticket_def)
next
  case (Some ticket)
  have tid: "t_id ticket = i" using find_SomeD [OF Some] by simp
  have put: "\<And>t. t_id t = t_id ticket \<Longrightarrow>
      find (\<lambda>x. t_id x = t_id ticket)
        (map (\<lambda>x. if t_id x = t_id ticket then t else x) (tickets db)) = Some t"
    using find_put_ticket [OF Some] tid by simp
  from assms Some tid show ?thesis
    by (cases "find (\<lambda>v. v_ticket_id v = i \<and> v_user_id v = u) (votes db)")
       (auto simp: vote_ticket_def Let_def vote_result_def put split: if_splits)
qed

text \<open>
  C2. For an existing ticket, \<^verbatim>\<open>vote_ticket\<close> looks up the vote of the user on the ticket.
  Without one it inserts a row and increments the matching counter (\<open>added\<close>); with one of
  the same polarity it deletes the row and decrements the matching counter, not below \<open>0\<close>
  (\<open>removed\<close>); with one of the opposite polarity it flips the row in place, increments the
  new counter and decrements the old one, not below \<open>0\<close> (\<open>changed\<close>). The result carries
  the counters of the stored ticket and their difference, and nothing but the ledger and
  the row of the ticket changes. For an absent ticket it returns \<^verbatim>\<open>None\<close> and the
  database is unchanged.
\<close>

theorem vote_ticket_algorithm:
  assumes "vote_ticket now db ticket_id user_id is_upvote = (db', r)"
  shows
    "(case find (\<lambda>t. t_id t = ticket_id) (tickets db) of
        None \<Rightarrow> db' = db \<and> r = None
      | Some ticket \<Rightarrow>
          (\<exists>ticket' res.
             find (\<lambda>t. t_id t = ticket_id) (tickets db') = Some ticket' \<and>
             tickets db' = map (\<lambda>t. if t_id t = ticket_id then ticket' else t) (tickets db) \<and>
             users db' = users db \<and> categories db' = categories db \<and>
             comments db' = comments db \<and> notifications db' = notifications db \<and>
             r = Some res \<and>
             r_upvotes res = t_upvotes ticket' \<and>
             r_downvotes res = t_downvotes ticket' \<and>
             r_vote_score res = t_upvotes ticket' - t_downvotes ticket' \<and>
             (case find (\<lambda>v. v_ticket_id v = ticket_id \<and> v_user_id v = user_id) (votes db) of
                None \<Rightarrow>
                  action res = ''added'' \<and>
                  votes db' = votes db @
                    [\<lparr> v_id = next_id (map v_id (votes db)), v_is_upvote = is_upvote,
                       v_ticket_id = ticket_id, v_user_id = user_id,
                       v_created_at = now, v_updated_at = now \<rparr>] \<and>
                  t_upvotes ticket' = t_upvotes ticket + (if is_upvote then 1 else 0) \<and>
                  t_downvotes ticket' = t_downvotes ticket + (if is_upvote then 0 else 1)
              | Some existing \<Rightarrow>
                  if v_is_upvote existing = is_upvote then
                    action res = ''removed'' \<and>
                    votes db' = filter (\<lambda>v. v_id v \<noteq> v_id existing) (votes db) \<and>
                    t_upvotes ticket' =
                      (if is_upvote then max 0 (t_upvotes ticket - 1) else t_upvotes ticket) \<and>
                    t_downvotes ticket' =
                      (if is_upvote then t_downvotes ticket else max 0 (t_downvotes ticket - 1))
                  else
                    action res = ''changed'' \<and>
                    votes db' =
                      map (\<lambda>v. if v_id v = v_id existing
                                then existing\<lparr>v_is_upvote := is_upvote, v_updated_at := now\<rparr>
                                else v) (votes db) \<and>
                    t_upvotes ticket' =
                      (if is_upvote then t_upvotes ticket + 1 else max 0 (t_upvotes ticket - 1)) \<and>
                    t_downvotes ticket' =
                      (if is_upvote then max 0 (t_downvotes ticket - 1)
                       else t_downvotes ticket + 1))))"
proof (cases "find (\<lambda>t. t_id t = ticket_id) (tickets db)")
  case None
  with assms show ?thesis by (simp add: vote_ticket_def)
next
  case (Some ticket)
  note tk = Some
  have tid: "t_id ticket = ticket_id"
    using find_SomeD [OF tk] by simp
  have put: "\<And>t. t_id t = t_id ticket \<Longrightarrow>
      find (\<lambda>x. t_id x = t_id ticket)
        (map (\<lambda>x. if t_id x = t_id ticket then t else x) (tickets db)) = Some t"
    using find_put_ticket [OF tk] tid by simp
  show ?thesis
  proof (cases "find (\<lambda>v. v_ticket_id v = ticket_id \<and> v_user_id v = user_id) (votes db)")
    case None
    with assms tk tid show ?thesis
      by (auto simp: vote_ticket_def Let_def vote_result_def vote_score_def put)
  next
    case (Some existing)
    with assms tk tid show ?thesis
      by (cases is_upvote; cases "v_is_upvote existing")
         (auto simp: vote_ticket_def Let_def vote_result_def vote_score_def put)
  qed
qed


theorem vote_ticket_algorithm_witness:
  "\<exists>res. snd (vote_ticket 15 example_db 1 2 True) = Some res \<and>
         action res = ''changed'' \<and> r_upvotes res = 1 \<and> r_downvotes res = 1 \<and>
         r_vote_score res = 0"
  using vote_ticket_algorithm
    [of 15 example_db 1 2 True "fst (vote_ticket 15 example_db 1 2 True)"
       "snd (vote_ticket 15 example_db 1 2 True)"]
  by (auto simp: example_db_def example_ticket_def)

subsection \<open>Counters\<close>

lemma counters_found:
  "counters_nonneg db \<Longrightarrow> find P (tickets db) = Some t \<Longrightarrow> 0 \<le> t_upvotes t \<and> 0 \<le> t_downvotes t"
  by (auto simp: counters_nonneg_def list_all_iff dest: find_SomeD)

lemma counters_create_ticket:
  "counters_nonneg db \<Longrightarrow> counters_nonneg (fst (create_ticket now db s d c u p))"
  using create_ticket_tickets [of now db s d c u p]
  by (auto simp: counters_nonneg_def)

lemma counters_update_ticket_status:
  assumes "counters_nonneg db"
  shows "counters_nonneg (fst (update_ticket_status now db i st u))"
proof (cases "find (\<lambda>t. t_id t = i) (tickets db)")
  case None
  with assms show ?thesis by (simp add: update_ticket_status_def)
next
  case (Some t)
  have "list_all (\<lambda>t. 0 \<le> t_upvotes t \<and> 0 \<le> t_downvotes t) (tickets db)"
    using assms by (simp add: counters_nonneg_def)
  with counters_found [OF assms Some] Some show ?thesis
    by (simp add: update_ticket_status_def Let_def create_status_change_notification_def
        counters_nonneg_def list_all_put)
qed

lemma counters_assign_ticket:
  assumes "counters_nonneg db"
  shows "counters_nonneg (fst (assign_ticket now db i a))"
proof (cases "find (\<lambda>t. t_id t = i) (tickets db)")
  case None
  with assms show ?thesis by (simp add: assign_ticket_def)
next
  case (Some t)
  have "list_all (\<lambda>t. 0 \<le> t_upvotes t \<and> 0 \<le> t_downvotes t) (tickets db)"
    using assms by (simp add: counters_nonneg_def)
  with counters_found [OF assms Some] Some show ?thesis
    by (simp add: assign_ticket_def Let_def counters_nonneg_def list_all_put)
qed

lemma counters_add_comment:
  assumes "counters_nonneg db"
  shows "counters_nonneg (fst (add_comment now db i c a b))"
proof (cases "find (\<lambda>t. t_id t = i) (tickets db)")
  case None
  with assms show ?thesis by (simp add: add_comment_def)
next
  case (Some t)
  have "list_all (\<lambda>t. 0 \<le> t_upvotes t \<and> 0 \<le> t_downvotes t) (tickets db)"
    using assms by (simp add: counters_nonneg_def)
  with counters_found [OF assms Some] Some show ?thesis
    by (simp add: add_comment_def Let_def create_comment_notification_def
        counters_nonneg_def list_all_put split: option.splits)
qed

lemma counters_vote_ticket:
  assumes "counters_nonneg db"
  shows "counters_nonneg (fst (vote_ticket now db i u up))"
proof (cases "find (\<lambda>t. t_id t = i) (tickets db)")
  case None
  with assms show ?thesis by (simp add: vote_ticket_def)
next
  case (Some t)
  have "list_all (\<lambda>t. 0 \<le> t_upvotes t \<and> 0 \<le> t_downvotes t) (tickets db)"
    using assms by (simp add: counters_nonneg_def)
  with counters_found [OF assms Some] Some show ?thesis
    by (simp add: vote_ticket_def Let_def counters_nonneg_def list_all_put
        split: option.splits)
qed

lemma counters_serve: "counters_nonneg db \<Longrightarrow> counters_nonneg (serve r db)"
proof (cases r)
  case (Other us cs ns)
  assume "counters_nonneg db"
  with Other show ?thesis by (simp add: counters_nonneg_def)
qed (simp_all add: counters_create_ticket counters_update_ticket_status counters_assign_ticket
        counters_add_comment counters_vote_ticket)

lemma counters_run: "counters_nonneg db \<Longrightarrow> counters_nonneg (run rs db)"
  unfolding run_def by (induction rs arbitrary: db) (simp_all add: counters_serve)

lemma counters_initial: "initial db \<Longrightarrow> counters_nonneg db"
  by (simp add: initial_def counters_nonneg_def)


text \<open>
  C3. In every reachable state, the vote score of every ticket is its upvotes minus its
  downvotes and both counters are non-negative; a vote in such a state reports counters
  with the same properties.
\<close>

theorem vote_score_invariant:
  assumes "initial db0"
  shows "(\<forall>t \<in> set (tickets (run requests db0)).
            vote_score t = t_upvotes t - t_downvotes t \<and>
            0 \<le> t_upvotes t \<and> 0 \<le> t_downvotes t) \<and>
         (\<forall>res. snd (vote_ticket now (run requests db0) ticket_id user_id is_upvote) = Some res
            \<longrightarrow> r_vote_score res = r_upvotes res - r_downvotes res \<and>
                0 \<le> r_upvotes res \<and> 0 \<le> r_downvotes res)"
proof -
  let ?db = "run requests db0"
  have inv: "counters_nonneg ?db"
    using assms by (intro counters_run counters_initial)
  have inv': "counters_nonneg (fst (vote_ticket now ?db ticket_id user_id is_upvote))"
    using inv by (rule counters_vote_ticket)
  have a: "\<forall>t \<in> set (tickets ?db).
            vote_score t = t_upvotes t - t_downvotes t \<and>
            0 \<le> t_upvotes t \<and> 0 \<le> t_downvotes t"
    using inv by (simp add: counters_nonneg_def list_all_iff vote_score_def)
  have b: "r_vote_score res = r_upvotes res - r_downvotes res \<and>
           0 \<le> r_upvotes res \<and> 0 \<le> r_downvotes res"
    if "snd (vote_ticket now ?db ticket_id user_id is_upvote) = Some res" for res
  proof -
    from vote_ticket_result [OF that] obtain t where
      t: "find (\<lambda>t. t_id t = ticket_id)
            (tickets (fst (vote_ticket now ?db ticket_id user_id is_upvote))) = Some t"
      and r: "r_upvotes res = t_upvotes t" "r_downvotes res = t_downvotes t"
             "r_vote_score res = vote_score t"
      by blast
    from counters_found [OF inv' t] r show ?thesis by (simp add: vote_score_def)
  qed
  from a b show ?thesis by blast
qed

theorem vote_score_invariant_witness:
  "initial empty_db \<and>
   map (\<lambda>t. (t_upvotes t, t_downvotes t, vote_score t))
     (tickets (run example_requests empty_db)) = [(0, 2, - 2)] \<and>
   list_all (\<lambda>t. vote_score t = t_upvotes t - t_downvotes t \<and>
                  0 \<le> t_upvotes t \<and> 0 \<le> t_downvotes t)
     (tickets (run example_requests empty_db)) \<and>
   map_option (\<lambda>res. (r_upvotes res, r_downvotes res, r_vote_score res))
     (snd (vote_ticket 15 (run example_requests empty_db) 1 2 True)) = Some (1, 1, 0)"
proof -
  have i: "initial empty_db" by (simp add: initial_def empty_db_def)
  have "list_all (\<lambda>t. vote_score t = t_upvotes t - t_downvotes t \<and>
                  0 \<le> t_upvotes t \<and> 0 \<le> t_downvotes t)
     (tickets (run example_requests empty_db))"
    using vote_score_invariant [OF i, of example_requests 15 1 2 True]
    by (simp add: list_all_iff)
  moreover have "map (\<lambda>t. (t_upvotes t, t_downvotes t, vote_score t))
     (tickets (run example_requests empty_db)) = [(0, 2, - 2)]"
    by code_simp
  moreover have "map_option (\<lambda>res. (r_upvotes res, r_downvotes res, r_vote_score res))
     (snd (vote_ticket 15 (run example_requests empty_db) 1 2 True)) = Some (1, 1, 0)"
    by code_simp
  ultimately show ?thesis using i by simp
qed


subsection \<open>One vote per ticket and user\<close>

lemma distinct_map_filter_le1:
  "distinct (map f xs) \<Longrightarrow> length (filter (\<lambda>x. f x = k) xs) \<le> 1"
proof (induction xs)
  case Nil
  then show ?case by simp
next
  case (Cons x xs)
  show ?case
  proof (cases "f x = k")
    case True
    with Cons.prems have "filter (\<lambda>x. f x = k) xs = []"
      by (auto simp: filter_empty_conv image_iff)
    with True show ?thesis by simp
  next
    case False
    with Cons show ?thesis by simp
  qed
qed

lemma ledger_inv_rows: "ledger_inv db \<Longrightarrow> length (vote_rows db i u) \<le> 1"
  using distinct_map_filter_le1 [of "\<lambda>v. (v_ticket_id v, v_user_id v)" "votes db" "(i, u)"]
  by (simp add: ledger_inv_def vote_rows_def)

lemma map_replace_same:
  assumes "distinct (map k xs)" "e \<in> set xs" "f e' = f e"
  shows "map f (map (\<lambda>x. if k x = k e then e' else x) xs) = map f xs"
proof -
  have "\<And>x. x \<in> set xs \<Longrightarrow> k x = k e \<Longrightarrow> x = e"
    using assms(1,2) by (meson distinct_map inj_onD)
  with assms(3) show ?thesis by (auto simp: map_eq_conv)
qed

lemma ledger_vote_ticket:
  assumes inv: "ledger_inv db"
  shows "ledger_inv (fst (vote_ticket now db i u up))"
proof (cases "find (\<lambda>t. t_id t = i) (tickets db)")
  case None
  with inv show ?thesis by (simp add: vote_ticket_def)
next
  case tk: (Some t)
  show ?thesis
  proof (cases "find (\<lambda>v. v_ticket_id v = i \<and> v_user_id v = u) (votes db)")
    case None
    have fresh: "next_id (map v_id (votes db)) \<notin> v_id ` set (votes db)"
      using next_id_fresh [of _ "map v_id (votes db)"] by fastforce
    have nopair: "(i, u) \<notin> (\<lambda>v. (v_ticket_id v, v_user_id v)) ` set (votes db)"
      using find_None_D [OF None] by auto
    from inv tk None fresh nopair show ?thesis
      by (simp add: vote_ticket_def Let_def ledger_inv_def)
  next
    case (Some e)
    have e: "e \<in> set (votes db)" "v_ticket_id e = i" "v_user_id e = u"
      using find_SomeD [OF Some] by auto
    show ?thesis
    proof (cases "v_is_upvote e = up")
      case True
      with inv tk Some show ?thesis
        by (simp add: vote_ticket_def Let_def ledger_inv_def distinct_map_filter)
    next
      case False
      have d: "distinct (map v_id (votes db))" using inv by (simp add: ledger_inv_def)
      have 1: "map v_id (map (\<lambda>v. if v_id v = v_id e
                 then e\<lparr>v_is_upvote := up, v_updated_at := now\<rparr> else v) (votes db))
               = map v_id (votes db)"
        by (rule map_replace_same [OF d e(1)]) simp
      have 2: "map (\<lambda>v. (v_ticket_id v, v_user_id v)) (map (\<lambda>v. if v_id v = v_id e
                 then e\<lparr>v_is_upvote := up, v_updated_at := now\<rparr> else v) (votes db))
               = map (\<lambda>v. (v_ticket_id v, v_user_id v)) (votes db)"
        by (rule map_replace_same [OF d e(1)]) simp
      from inv tk Some False 1 2 show ?thesis
        by (simp add: vote_ticket_def Let_def ledger_inv_def del: map_map)
    qed
  qed
qed

lemma ledger_serve: "ledger_inv db \<Longrightarrow> ledger_inv (serve r db)"
proof (cases r)
  case (VoteTicket now i u up)
  assume "ledger_inv db"
  with VoteTicket show ?thesis by (simp add: ledger_vote_ticket)
qed (simp_all add: ledger_inv_def create_ticket_votes update_ticket_status_votes
      assign_ticket_votes add_comment_votes)

lemma ledger_run: "ledger_inv db \<Longrightarrow> ledger_inv (run rs db)"
  unfolding run_def by (induction rs arbitrary: db) (simp_all add: ledger_serve)

lemma ledger_initial: "initial db \<Longrightarrow> ledger_inv db"
  by (simp add: initial_def ledger_inv_def)

text \<open>
  C4. In every reachable state the ledger holds at most one row for a ticket and a user,
  and a further vote keeps it so. The tables of the model are plain lists of rows with no
  uniqueness constraint on the pair: the property comes from the lookup and the branches of
  \<^verbatim>\<open>vote_ticket\<close>.
\<close>

theorem one_vote_per_ticket_and_user:
  assumes "initial db0"
  shows "length (vote_rows (run requests db0) ticket_id user_id) \<le> 1 \<and>
         length (vote_rows (fst (vote_ticket now (run requests db0) i u is_upvote))
                   ticket_id user_id) \<le> 1"
proof -
  have inv: "ledger_inv (run requests db0)"
    using assms by (intro ledger_run ledger_initial)
  then have "ledger_inv (fst (vote_ticket now (run requests db0) i u is_upvote))"
    by (rule ledger_vote_ticket)
  with inv show ?thesis by (intro conjI ledger_inv_rows)
qed

theorem one_vote_per_ticket_and_user_witness:
  "initial empty_db \<and>
   length (vote_rows (run example_requests empty_db) 1 7) = 1 \<and>
   length (vote_rows (fst (vote_ticket 15 (run example_requests empty_db) 1 8 True)) 1 8) \<le> 1"
proof -
  have "length (vote_rows (run example_requests empty_db) 1 7) = 1"
    by code_simp
  with one_vote_per_ticket_and_user [OF empty_db_initial, of example_requests 1 8 15 1 8 True]
  show ?thesis by (simp add: empty_db_initial)
qed

subsection \<open>Voting twice\<close>

lemma filter_fresh_id:
  "n \<notin> v_id ` set vs \<Longrightarrow> v_id x = n \<Longrightarrow> filter (\<lambda>v. v_id v \<noteq> n) (vs @ [x]) = vs"
  by (auto simp: filter_id_conv image_iff)

text \<open>
  C9. On a ticket whose counters agree with the ledger, a user without a vote on it who
  casts the same vote twice gets \<open>added\<close>, then \<open>removed\<close>, and the second call leaves the
  ledger and both counters of the ticket as they were before the first.
\<close>

theorem vote_twice_round_trip:
  assumes tk: "find (\<lambda>t. t_id t = ticket_id) (tickets db) = Some ticket"
    and cons: "ledger_consistent db ticket"
    and novote: "find (\<lambda>v. v_ticket_id v = ticket_id \<and> v_user_id v = user_id) (votes db) = None"
    and first: "vote_ticket now1 db ticket_id user_id is_upvote = (db1, r1)"
    and second: "vote_ticket now2 db1 ticket_id user_id is_upvote = (db2, r2)"
  shows "map_option action r1 = Some ''added'' \<and>
         map_option action r2 = Some ''removed'' \<and>
         map_option r_upvotes r2 = Some (t_upvotes ticket) \<and>
         map_option r_downvotes r2 = Some (t_downvotes ticket) \<and>
         votes db2 = votes db \<and>
         (\<exists>ticket2. find (\<lambda>t. t_id t = ticket_id) (tickets db2) = Some ticket2 \<and>
            t_upvotes ticket2 = t_upvotes ticket \<and> t_downvotes ticket2 = t_downvotes ticket)"
proof -
  have tid: "t_id ticket = ticket_id" using find_SomeD [OF tk] by simp
  have nonneg: "0 \<le> t_upvotes ticket" "0 \<le> t_downvotes ticket"
    using cons by (simp_all add: ledger_consistent_def)
  define vote where "vote =
    \<lparr> v_id = next_id (map v_id (votes db)), v_is_upvote = is_upvote,
      v_ticket_id = ticket_id, v_user_id = user_id,
      v_created_at = now1, v_updated_at = now1 \<rparr>"
  define ticket1 where "ticket1 =
    (if is_upvote then ticket\<lparr>t_upvotes := t_upvotes ticket + 1\<rparr>
     else ticket\<lparr>t_downvotes := t_downvotes ticket + 1\<rparr>)"
  have tid1: "t_id ticket1 = ticket_id" using tid by (simp add: ticket1_def)
  have db1: "db1 = put_ticket ticket1 (db\<lparr>votes := votes db @ [vote]\<rparr>)"
    and r1: "r1 = Some (vote_result ''added'' is_upvote ticket1)"
    using first tk novote by (simp_all add: vote_ticket_def Let_def vote_def ticket1_def)
  have tk1: "find (\<lambda>t. t_id t = ticket_id) (tickets db1) = Some ticket1"
    using find_put_ticket [OF tk tid1] tid1 by (simp add: db1)
  have ex1: "find (\<lambda>v. v_ticket_id v = ticket_id \<and> v_user_id v = user_id) (votes db1) = Some vote"
    using find_append_new [OF novote, of vote] by (simp add: db1 vote_def)
  have fresh: "next_id (map v_id (votes db)) \<notin> v_id ` set (votes db)"
    using next_id_fresh [of _ "map v_id (votes db)"] by fastforce
  have del: "filter (\<lambda>v. v_id v \<noteq> v_id vote) (votes db1) = votes db"
    using filter_fresh_id [OF fresh, of vote] by (simp add: db1 vote_def)
  define ticket2 where "ticket2 =
    (if is_upvote then ticket1\<lparr>t_upvotes := max 0 (t_upvotes ticket1 - 1)\<rparr>
     else ticket1\<lparr>t_downvotes := max 0 (t_downvotes ticket1 - 1)\<rparr>)"
  have tid2: "t_id ticket2 = ticket_id" using tid1 by (simp add: ticket2_def)
  have pol: "v_is_upvote vote = is_upvote" by (simp add: vote_def)
  have db2: "db2 = put_ticket ticket2 (db1\<lparr>votes := votes db\<rparr>)"
    and r2: "r2 = Some (vote_result ''removed'' is_upvote ticket2)"
    using second tk1 ex1 pol del by (simp_all add: vote_ticket_def Let_def ticket2_def)
  have tk2: "find (\<lambda>t. t_id t = ticket_id) (tickets db2) = Some ticket2"
    using find_put_ticket [OF tk1 tid2] tid2 by (simp add: db2)
  have c2: "t_upvotes ticket2 = t_upvotes ticket" "t_downvotes ticket2 = t_downvotes ticket"
    using nonneg by (simp_all add: ticket2_def ticket1_def)
  show ?thesis
    using r1 r2 tk2 c2 by (simp add: vote_result_def db2)
qed


theorem vote_twice_round_trip_witness:
  "ledger_consistent example_db example_ticket \<and>
   vote_rows example_db 1 8 = [] \<and>
   map_option action (snd (vote_ticket 21 (fst (vote_ticket 20 example_db 1 8 True)) 1 8 True))
     = Some ''removed'' \<and>
   votes (fst (vote_ticket 21 (fst (vote_ticket 20 example_db 1 8 True)) 1 8 True))
     = votes example_db"
proof -
  have tk: "find (\<lambda>t. t_id t = 1) (tickets example_db) = Some example_ticket"
    by (simp add: example_db_def example_ticket_def)
  have cons: "ledger_consistent example_db example_ticket"
    by (simp add: ledger_consistent_def example_db_def example_ticket_def)
  have novote: "find (\<lambda>v. v_ticket_id v = 1 \<and> v_user_id v = 8) (votes example_db) = None"
    by (simp add: example_db_def)
  have rows: "vote_rows example_db 1 8 = []"
    by (simp add: vote_rows_def example_db_def)
  from vote_twice_round_trip [OF tk cons novote surjective_pairing surjective_pairing]
  show ?thesis using cons rows by simp
qed

subsection \<open>Status changes\<close>

lemma find_put_other:
  "find (\<lambda>x. t_id x = i) ts = Some t \<Longrightarrow> t_id t1 = j \<Longrightarrow>
   find (\<lambda>x. t_id x = i) (map (\<lambda>x. if t_id x = j then t1 else x) ts) =
     Some (if i = j then t1 else t)"
  by (induction ts) (auto split: if_splits)

lemma find_append_old: "find P xs = Some x \<Longrightarrow> find P (xs @ ys) = Some x"
  by (induction xs) (auto split: if_splits)

lemma stamps_kept_refl [simp]: "stamps_kept t t"
  by (simp add: stamps_kept_def)

lemma stamps_kept_trans: "stamps_kept a b \<Longrightarrow> stamps_kept b c \<Longrightarrow> stamps_kept a c"
  by (auto simp: stamps_kept_def)

lemma kept_create_ticket:
  assumes "find (\<lambda>x. t_id x = i) (tickets db) = Some t"
  shows "find (\<lambda>x. t_id x = i) (tickets (fst (create_ticket now db s d c u p))) = Some t"
  using create_ticket_tickets [of now db s d c u p] assms
  by (auto simp: find_append_old)

lemma kept_put:
  assumes i: "find (\<lambda>x. t_id x = i) (tickets db) = Some t"
    and j: "find (\<lambda>x. t_id x = j) (tickets db) = Some t0"
    and id: "t_id t1 = j" and k: "stamps_kept t0 t1"
    and tks: "tickets db' = map (\<lambda>x. if t_id x = j then t1 else x) (tickets db)"
  shows "\<exists>t'. find (\<lambda>x. t_id x = i) (tickets db') = Some t' \<and> stamps_kept t t'"
proof (cases "i = j")
  case True
  with i j have "t0 = t" by simp
  with find_put_other [OF i id] True k tks show ?thesis by simp
next
  case False
  with find_put_other [OF i id] tks show ?thesis by simp
qed

lemma kept_update_ticket_status:
  assumes "find (\<lambda>x. t_id x = i) (tickets db) = Some t"
  shows "\<exists>t'. find (\<lambda>x. t_id x = i) (tickets (fst (update_ticket_status now db j st u))) = Some t'
           \<and> stamps_kept t t'"
proof (cases "find (\<lambda>x. t_id x = j) (tickets db)")
  case None
  with assms show ?thesis by (simp add: update_ticket_status_def)
next
  case (Some t0)
  have j: "t_id t0 = j" using find_SomeD [OF Some] by simp
  define t1 where "t1 =
    (if st = RESOLVED then t0\<lparr>t_status := st, t_updated_at := now, t_resolved_at := Some now\<rparr>
     else if st = CLOSED then t0\<lparr>t_status := st, t_updated_at := now, t_closed_at := Some now\<rparr>
     else t0\<lparr>t_status := st, t_updated_at := now\<rparr>)"
  have "t_id t1 = j" "stamps_kept t0 t1"
    using j by (simp_all add: t1_def stamps_kept_def)
  moreover have "tickets (fst (update_ticket_status now db j st u)) =
      map (\<lambda>x. if t_id x = j then t1 else x) (tickets db)"
    using Some j
    by (simp add: update_ticket_status_def Let_def t1_def create_status_change_notification_def)
  ultimately show ?thesis by (rule kept_put [OF assms Some])
qed

lemma kept_assign_ticket:
  assumes "find (\<lambda>x. t_id x = i) (tickets db) = Some t"
  shows "\<exists>t'. find (\<lambda>x. t_id x = i) (tickets (fst (assign_ticket now db j a))) = Some t'
           \<and> stamps_kept t t'"
proof (cases "find (\<lambda>x. t_id x = j) (tickets db)")
  case None
  with assms show ?thesis by (simp add: assign_ticket_def)
next
  case (Some t0)
  have j: "t_id t0 = j" using find_SomeD [OF Some] by simp
  define t1 where "t1 =
    (if t_status t0 = OPEN \<and> truthy_int a
     then t0\<lparr>t_assigned_to_id := a, t_updated_at := now, t_status := IN_PROGRESS\<rparr>
     else t0\<lparr>t_assigned_to_id := a, t_updated_at := now\<rparr>)"
  have "t_id t1 = j" "stamps_kept t0 t1"
    using j by (simp_all add: t1_def stamps_kept_def)
  moreover have "tickets (fst (assign_ticket now db j a)) =
      map (\<lambda>x. if t_id x = j then t1 else x) (tickets db)"
    using Some j by (simp add: assign_ticket_def Let_def t1_def)
  ultimately show ?thesis by (rule kept_put [OF assms Some])
qed

lemma kept_add_comment:
  assumes "find (\<lambda>x. t_id x = i) (tickets db) = Some t"
  shows "\<exists>t'. find (\<lambda>x. t_id x = i) (tickets (fst (add_comment now db j c a b))) = Some t'
           \<and> stamps_kept t t'"
proof (cases "find (\<lambda>x. t_id x = j) (tickets db)")
  case None
  with assms show ?thesis by (simp add: add_comment_def)
next
  case (Some t0)
  have j: "t_id t0 = j" using find_SomeD [OF Some] by simp
  have "t_id (t0\<lparr>t_updated_at := now\<rparr>) = j" "stamps_kept t0 (t0\<lparr>t_updated_at := now\<rparr>)"
    using j by (simp_all add: stamps_kept_def)
  moreover have "tickets (fst (add_comment now db j c a b)) =
      map (\<lambda>x. if t_id x = j then t0\<lparr>t_updated_at := now\<rparr> else x) (tickets db)"
    using Some j
    by (simp add: add_comment_def Let_def create_comment_notification_def split: option.splits)
  ultimately show ?thesis by (rule kept_put [OF assms Some])
qed

lemma vote_ticket_tickets:
  assumes "find (\<lambda>x. t_id x = j) (tickets db) = Some t0"
  shows "\<exists>t1. t_id t1 = j \<and> stamps_kept t0 t1 \<and>
           tickets (fst (vote_ticket now db j u up)) =
             map (\<lambda>x. if t_id x = j then t1 else x) (tickets db)"
proof -
  have j: "t_id t0 = j" using find_SomeD [OF assms] by simp
  have "\<exists>uv dv. tickets (fst (vote_ticket now db j u up)) =
      map (\<lambda>x. if t_id x = j then t0\<lparr>t_upvotes := uv, t_downvotes := dv\<rparr> else x) (tickets db)"
  proof (cases "find (\<lambda>v. v_ticket_id v = j \<and> v_user_id v = u) (votes db)")
    case None
    show ?thesis
    proof (cases up)
      case True
      have "tickets (fst (vote_ticket now db j u up)) =
        map (\<lambda>x. if t_id x = j
          then t0\<lparr>t_upvotes := t_upvotes t0 + 1, t_downvotes := t_downvotes t0\<rparr> else x) (tickets db)"
        using assms None True j by (simp add: vote_ticket_def Let_def)
      then show ?thesis by blast
    next
      case False
      have "tickets (fst (vote_ticket now db j u up)) =
        map (\<lambda>x. if t_id x = j
          then t0\<lparr>t_upvotes := t_upvotes t0, t_downvotes := t_downvotes t0 + 1\<rparr> else x) (tickets db)"
        using assms None False j by (simp add: vote_ticket_def Let_def)
      then show ?thesis by blast
    qed
  next
    case (Some e)
    show ?thesis
    proof (cases up; cases "v_is_upvote e")
      assume "up" "v_is_upvote e"
      with assms Some j have "tickets (fst (vote_ticket now db j u up)) =
        map (\<lambda>x. if t_id x = j
          then t0\<lparr>t_upvotes := max 0 (t_upvotes t0 - 1), t_downvotes := t_downvotes t0\<rparr>
          else x) (tickets db)"
        by (simp add: vote_ticket_def Let_def)
      then show ?thesis by blast
    next
      assume "up" "\<not> v_is_upvote e"
      with assms Some j have "tickets (fst (vote_ticket now db j u up)) =
        map (\<lambda>x. if t_id x = j
          then t0\<lparr>t_upvotes := t_upvotes t0 + 1, t_downvotes := max 0 (t_downvotes t0 - 1)\<rparr>
          else x) (tickets db)"
        by (simp add: vote_ticket_def Let_def)
      then show ?thesis by blast
    next
      assume "\<not> up" "v_is_upvote e"
      with assms Some j have "tickets (fst (vote_ticket now db j u up)) =
        map (\<lambda>x. if t_id x = j
          then t0\<lparr>t_upvotes := max 0 (t_upvotes t0 - 1), t_downvotes := t_downvotes t0 + 1\<rparr>
          else x) (tickets db)"
        by (simp add: vote_ticket_def Let_def)
      then show ?thesis by blast
    next
      assume "\<not> up" "\<not> v_is_upvote e"
      with assms Some j have "tickets (fst (vote_ticket now db j u up)) =
        map (\<lambda>x. if t_id x = j
          then t0\<lparr>t_upvotes := t_upvotes t0, t_downvotes := max 0 (t_downvotes t0 - 1)\<rparr>
          else x) (tickets db)"
        by (simp add: vote_ticket_def Let_def)
      then show ?thesis by blast
    qed
  qed
  then obtain uv dv where
    "tickets (fst (vote_ticket now db j u up)) =
      map (\<lambda>x. if t_id x = j then t0\<lparr>t_upvotes := uv, t_downvotes := dv\<rparr> else x) (tickets db)"
    by blast
  moreover have "t_id (t0\<lparr>t_upvotes := uv, t_downvotes := dv\<rparr>) = j"
    "stamps_kept t0 (t0\<lparr>t_upvotes := uv, t_downvotes := dv\<rparr>)"
    using j by (simp_all add: stamps_kept_def)
  ultimately show ?thesis by blast
qed

lemma kept_vote_ticket:
  assumes "find (\<lambda>x. t_id x = i) (tickets db) = Some t"
  shows "\<exists>t'. find (\<lambda>x. t_id x = i) (tickets (fst (vote_ticket now db j u up))) = Some t'
           \<and> stamps_kept t t'"
proof (cases "find (\<lambda>x. t_id x = j) (tickets db)")
  case None
  with assms show ?thesis by (simp add: vote_ticket_def)
next
  case (Some t0)
  from vote_ticket_tickets [OF Some, of now u up] obtain t1 where
    "t_id t1 = j" "stamps_kept t0 t1"
    "tickets (fst (vote_ticket now db j u up)) =
       map (\<lambda>x. if t_id x = j then t1 else x) (tickets db)"
    by blast
  then show ?thesis by (rule kept_put [OF assms Some])
qed

lemma kept_serve:
  assumes "find (\<lambda>x. t_id x = i) (tickets db) = Some t"
  shows "\<exists>t'. find (\<lambda>x. t_id x = i) (tickets (serve r db)) = Some t' \<and> stamps_kept t t'"
proof (cases r)
  case (CreateTicket now s d c u p)
  with kept_create_ticket [OF assms] show ?thesis by simp
next
  case (UpdateTicketStatus now j st u)
  with kept_update_ticket_status [OF assms] show ?thesis by simp
next
  case (AssignTicket now j a)
  with kept_assign_ticket [OF assms] show ?thesis by simp
next
  case (AddComment now j c a b)
  with kept_add_comment [OF assms] show ?thesis by simp
next
  case (VoteTicket now j u up)
  with kept_vote_ticket [OF assms] show ?thesis by simp
next
  case (Other us cs ns)
  with assms show ?thesis by simp
qed

lemma kept_run:
  "find (\<lambda>x. t_id x = i) (tickets db) = Some t \<Longrightarrow>
   \<exists>t'. find (\<lambda>x. t_id x = i) (tickets (run rs db)) = Some t' \<and> stamps_kept t t'"
proof (induction rs arbitrary: db t)
  case Nil
  then show ?case by (simp add: run_def)
next
  case (Cons r rs)
  from kept_serve [OF Cons.prems, of r] obtain t1 where
    t1: "find (\<lambda>x. t_id x = i) (tickets (serve r db)) = Some t1" and k1: "stamps_kept t t1"
    by blast
  from Cons.IH [OF t1] obtain t2 where
    "find (\<lambda>x. t_id x = i) (tickets (run rs (serve r db))) = Some t2" and "stamps_kept t1 t2"
    by blast
  with k1 show ?case by (auto simp: run_def intro: stamps_kept_trans)
qed

lemma example_ticket_found:
  "find (\<lambda>t. t_id t = 1) (tickets example_db) = Some example_ticket"
  by (simp add: example_db_def example_ticket_def)

text \<open>
  C5. For an existing ticket and any status, \<^verbatim>\<open>update_ticket_status\<close> stores the new status
  and sets \<^verbatim>\<open>updated_at\<close> to the time of the call. Entering \<open>resolved\<close> sets \<^verbatim>\<open>resolved_at\<close>
  to that time, on every such transition, and entering \<open>closed\<close> does the same for
  \<^verbatim>\<open>closed_at\<close>; otherwise the two timestamps are kept, and no later request clears one
  that is set. One notification of type \<open>status_changed\<close>, addressed to the creator of the
  ticket and naming the old and the new status, is appended exactly when the new status
  differs from the old one.
\<close>

theorem update_ticket_status_spec:
  assumes tk: "find (\<lambda>t. t_id t = ticket_id) (tickets db) = Some ticket"
    and upd: "update_ticket_status now db ticket_id status updated_by_id = (db', r)"
  shows "\<exists>ticket'.
     r = Some ticket' \<and>
     find (\<lambda>t. t_id t = ticket_id) (tickets db') = Some ticket' \<and>
     t_status ticket' = status \<and>
     t_updated_at ticket' = now \<and>
     t_resolved_at ticket' = (if status = RESOLVED then Some now else t_resolved_at ticket) \<and>
     t_closed_at ticket' = (if status = CLOSED then Some now else t_closed_at ticket) \<and>
     stamps_kept ticket ticket' \<and>
     (\<forall>requests. \<exists>later.
        find (\<lambda>t. t_id t = ticket_id) (tickets (run requests db')) = Some later \<and>
        stamps_kept ticket' later) \<and>
     notifications db' =
       (if status \<noteq> t_status ticket then
          notifications db @
            [\<lparr> n_id = next_id (map n_id (notifications db)),
               n_title = ''Ticket Status Updated: '' @ t_subject ticket,
               n_message = ''Your ticket status has been changed from '' @
                 status_value (t_status ticket) @ '' to '' @ status_value status,
               n_notification_type = ''status_changed'',
               n_is_read = False,
               n_is_email_sent = (find (\<lambda>u. u_id u = t_created_by_id ticket) (users db) \<noteq> None),
               n_user_id = t_created_by_id ticket,
               n_ticket_id = Some ticket_id,
               n_created_at = now \<rparr>]
        else notifications db)"
proof -
  have tid: "t_id ticket = ticket_id" using find_SomeD [OF tk] by simp
  define ticket' where "ticket' =
    (if status = RESOLVED
     then ticket\<lparr>t_status := status, t_updated_at := now, t_resolved_at := Some now\<rparr>
     else if status = CLOSED
     then ticket\<lparr>t_status := status, t_updated_at := now, t_closed_at := Some now\<rparr>
     else ticket\<lparr>t_status := status, t_updated_at := now\<rparr>)"
  have tid': "t_id ticket' = ticket_id" using tid by (simp add: ticket'_def)
  have eq: "update_ticket_status now db ticket_id status updated_by_id =
      (if t_status ticket \<noteq> status
       then create_status_change_notification now (put_ticket ticket' db) ticket'
              (t_status ticket) status
       else put_ticket ticket' db, Some ticket')"
    using tk by (simp add: update_ticket_status_def Let_def ticket'_def)
  have r: "r = Some ticket'" and db': "db' =
      (if t_status ticket \<noteq> status
       then create_status_change_notification now (put_ticket ticket' db) ticket'
              (t_status ticket) status
       else put_ticket ticket' db)"
    using upd unfolding eq by simp_all
  have tks: "tickets db' = map (\<lambda>x. if t_id x = ticket_id then ticket' else x) (tickets db)"
    by (simp add: db' create_status_change_notification_def tid')
  have found: "find (\<lambda>t. t_id t = ticket_id) (tickets db') = Some ticket'"
    using find_put_ticket [OF tk tid'] by (simp add: tks)
  have later: "\<exists>later. find (\<lambda>t. t_id t = ticket_id) (tickets (run requests db')) = Some later \<and>
        stamps_kept ticket' later" for requests
    by (rule kept_run [OF found])
  have same: "t_subject ticket' = t_subject ticket"
    "t_created_by_id ticket' = t_created_by_id ticket"
    by (simp_all add: ticket'_def)
  have ns: "notifications db' =
       (if status \<noteq> t_status ticket then
          notifications db @
            [\<lparr> n_id = next_id (map n_id (notifications db)),
               n_title = ''Ticket Status Updated: '' @ t_subject ticket,
               n_message = ''Your ticket status has been changed from '' @
                 status_value (t_status ticket) @ '' to '' @ status_value status,
               n_notification_type = ''status_changed'',
               n_is_read = False,
               n_is_email_sent = (find (\<lambda>u. u_id u = t_created_by_id ticket) (users db) \<noteq> None),
               n_user_id = t_created_by_id ticket,
               n_ticket_id = Some ticket_id,
               n_created_at = now \<rparr>]
        else notifications db)"
    by (auto simp: db' create_status_change_notification_def create_notification_def
        same tid')
  have fields: "t_status ticket' = status" "t_updated_at ticket' = now"
    "t_resolved_at ticket' = (if status = RESOLVED then Some now else t_resolved_at ticket)"
    "t_closed_at ticket' = (if status = CLOSED then Some now else t_closed_at ticket)"
    "stamps_kept ticket ticket'"
    by (auto simp: ticket'_def stamps_kept_def)
  from r found fields later ns show ?thesis by blast
qed

theorem update_ticket_status_spec_witness:
  "map_option (\<lambda>t. (t_status t, t_updated_at t, t_resolved_at t, t_closed_at t))
     (snd (update_ticket_status 30 example_db 1 RESOLVED 2)) = Some (RESOLVED, 30, Some 30, None) \<and>
   map (\<lambda>n. (n_user_id n, n_notification_type n, n_message n))
     (drop 2 (notifications (fst (update_ticket_status 30 example_db 1 RESOLVED 2)))) =
     [(7, ''status_changed'', ''Your ticket status has been changed from open to resolved'')]"
proof -
  from update_ticket_status_spec [OF example_ticket_found surjective_pairing, of 30 RESOLVED 2]
  obtain ticket' where
    r: "snd (update_ticket_status 30 example_db 1 RESOLVED 2) = Some ticket'"
    and f: "t_status ticket' = RESOLVED" "t_updated_at ticket' = 30"
      "t_resolved_at ticket' = Some 30" "t_closed_at ticket' = t_closed_at example_ticket"
    and ns: "notifications (fst (update_ticket_status 30 example_db 1 RESOLVED 2)) =
       (if RESOLVED \<noteq> t_status example_ticket then
          notifications example_db @
            [\<lparr> n_id = next_id (map n_id (notifications example_db)),
               n_title = ''Ticket Status Updated: '' @ t_subject example_ticket,
               n_message = ''Your ticket status has been changed from '' @
                 status_value (t_status example_ticket) @ '' to '' @ status_value RESOLVED,
               n_notification_type = ''status_changed'',
               n_is_read = False,
               n_is_email_sent =
                 (find (\<lambda>u. u_id u = t_created_by_id example_ticket) (users example_db) \<noteq> None),
               n_user_id = t_created_by_id example_ticket,
               n_ticket_id = Some 1,
               n_created_at = 30 \<rparr>]
        else notifications example_db)"
    by auto
  show ?thesis
    unfolding r ns using f by (simp add: example_db_def example_ticket_def)
qed


subsection \<open>Assignment\<close>

text \<open>
  C8, as the claim states it, fails for the assignee \<open>0\<close>: the value is not null, it is
  stored, and the open ticket stays open, because the source tests the assignee for
  truthiness.
\<close>

theorem assign_zero_counterexample:
  "t_status example_ticket = OPEN \<and>
   map_option (\<lambda>t. (t_assigned_to_id t, t_status t))
     (snd (assign_ticket 20 example_db 1 (Some 0))) = Some (Some 0, OPEN)"
  by (simp add: assign_ticket_def example_db_def example_ticket_def Let_def)


text \<open>
  C8, amended. For an existing ticket, \<^verbatim>\<open>assign_ticket\<close> stores the given assignee and sets
  \<^verbatim>\<open>updated_at\<close> to the time of the call. The status becomes \<open>in_progress\<close> when it was
  \<open>open\<close> and the assignee is neither null nor \<open>0\<close>; in every other case, unassignment
  included, the status is unchanged. No notification is created.
\<close>

theorem assign_ticket_spec:
  assumes tk: "find (\<lambda>t. t_id t = ticket_id) (tickets db) = Some ticket"
    and asg: "assign_ticket now db ticket_id assigned_to_id = (db', r)"
  shows "\<exists>ticket'.
     r = Some ticket' \<and>
     find (\<lambda>t. t_id t = ticket_id) (tickets db') = Some ticket' \<and>
     t_assigned_to_id ticket' = assigned_to_id \<and>
     t_updated_at ticket' = now \<and>
     t_status ticket' =
       (if t_status ticket = OPEN \<and> assigned_to_id \<noteq> None \<and> assigned_to_id \<noteq> Some 0
        then IN_PROGRESS else t_status ticket) \<and>
     notifications db' = notifications db"
proof -
  have tid: "t_id ticket = ticket_id" using find_SomeD [OF tk] by simp
  define ticket' where "ticket' =
    (if t_status ticket = OPEN \<and> truthy_int assigned_to_id
     then ticket\<lparr>t_assigned_to_id := assigned_to_id, t_updated_at := now,
                 t_status := IN_PROGRESS\<rparr>
     else ticket\<lparr>t_assigned_to_id := assigned_to_id, t_updated_at := now\<rparr>)"
  have tid': "t_id ticket' = ticket_id" using tid by (simp add: ticket'_def)
  have eq: "assign_ticket now db ticket_id assigned_to_id = (put_ticket ticket' db, Some ticket')"
    using tk by (simp add: assign_ticket_def Let_def ticket'_def)
  have r: "r = Some ticket'" and db': "db' = put_ticket ticket' db"
    using asg unfolding eq by simp_all
  have found: "find (\<lambda>t. t_id t = ticket_id) (tickets db') = Some ticket'"
    using find_put_ticket [OF tk tid'] by (simp add: db' tid')
  have truthy: "truthy_int assigned_to_id \<longleftrightarrow> assigned_to_id \<noteq> None \<and> assigned_to_id \<noteq> Some 0"
    by (cases assigned_to_id) simp_all
  have fields: "t_assigned_to_id ticket' = assigned_to_id" "t_updated_at ticket' = now"
    "t_status ticket' =
       (if t_status ticket = OPEN \<and> assigned_to_id \<noteq> None \<and> assigned_to_id \<noteq> Some 0
        then IN_PROGRESS else t_status ticket)"
    by (simp_all add: ticket'_def truthy)
  from r found fields show ?thesis by (simp add: db')
qed

theorem assign_ticket_spec_witness:
  "map_option (\<lambda>t. (t_assigned_to_id t, t_updated_at t, t_status t))
     (snd (assign_ticket 20 example_db 1 (Some 2))) = Some (Some 2, 20, IN_PROGRESS)"
proof -
  from assign_ticket_spec [OF example_ticket_found surjective_pairing, of 20 "Some 2"]
  obtain ticket' where
    "snd (assign_ticket 20 example_db 1 (Some 2)) = Some ticket'"
    "t_assigned_to_id ticket' = Some 2" "t_updated_at ticket' = 20"
    "t_status ticket' = (if t_status example_ticket = OPEN then IN_PROGRESS
                         else t_status example_ticket)"
    by auto
  then show ?thesis by (simp add: example_ticket_def)
qed

subsection \<open>Listing\<close>

lemma if_filter: "(if c then filter P xs else xs) = filter (\<lambda>t. c \<longrightarrow> P t) xs"
  by simp

lemma filtered_query_filter:
  "filtered_query db user_id user_role status category_id search =
     filter (query_filter user_id user_role status category_id search) (tickets db)"
proof (cases search)
  case None
  show ?thesis
    unfolding filtered_query_def Let_def if_filter filter_filter query_filter_def None
    by (simp cong: filter_cong)
next
  case (Some pat)
  show ?thesis
    unfolding filtered_query_def Let_def if_filter filter_filter query_filter_def Some
    by (auto intro!: filter_cong)
qed

lemma length_insert_by [simp]: "length (insert_by le x xs) = Suc (length xs)"
  by (induction xs) simp_all

lemma length_order_by [simp]: "length (order_by key d rows) = length rows"
  unfolding order_by_def by (induction rows) simp_all




text \<open>
  The pattern that \<^verbatim>\<open>get_tickets\<close> builds from a search text without wildcards matches
  exactly the strings that contain the text.
\<close>

lemma like_percent [simp]: "like [CHR ''%''] s"
  by (induction s) simp_all

lemma starts_with_Nil [simp]: "starts_with p [] = (p = [])"
  by (cases p) simp_all

lemma substring_Nil [simp]: "substring [] s"
  by (cases s) simp_all





lemma substring_ci_Nil [simp]: "substring_ci [] s"
  by (simp add: substring_ci_def)



text \<open>
  A sort key that names the property \<^verbatim>\<open>vote_score\<close> passes \<^verbatim>\<open>hasattr\<close> and makes
  the query builder raise: no listing is returned, and the endpoint answers with status
  500.
\<close>

lemma sort_by_property_raises:
  "get_tickets listing_db (Some 2) (Some SUPPORT_AGENT) None None None
     ''vote_score'' ''desc'' 20 0 = Inl SQLAlchemyError \<and>
   status_code (api_get_tickets listing_db \<lparr> cu_id = 2, cu_role = SUPPORT_AGENT \<rparr> None None []
     ''vote_score'' ''desc'' 20 0) = 500"
  by code_simp




subsection \<open>Creating a ticket\<close>

lemma notify_each_notifications:
  "notify_each now db t us = Inr db' \<Longrightarrow>
   \<exists>ns. notifications db' = notifications db @ ns \<and>
        map n_user_id ns = map u_id us \<and>
        list_all (\<lambda>n. n_notification_type n = ''ticket_created'' \<and>
                       n_ticket_id n = Some (t_id t)) ns"
proof (induction us arbitrary: db)
  case Nil
  then show ?case by simp
next
  case (Cons u us)
  from Cons.prems obtain cr cat where
    c: "creator db t = Some cr" "category db t = Some cat"
    by (auto split: option.splits)
  define n where "n =
     \<lparr> n_id = next_id (map n_id (notifications db)),
       n_title = ''New Ticket Created: '' @ t_subject t,
       n_message = ''A new ticket has been created by '' @ u_full_name cr @
                ''. Category: '' @ c_name cat,
       n_notification_type = ''ticket_created'',
       n_is_read = False,
       n_is_email_sent = (find (\<lambda>x. u_id x = u_id u) (users db) \<noteq> None),
       n_user_id = u_id u,
       n_ticket_id = Some (t_id t),
       n_created_at = now \<rparr>"
  define db1 where "db1 = db\<lparr>notifications := notifications db @ [n]\<rparr>"
  have step: "notify_each now db1 t us = Inr db'"
    using Cons.prems c by (simp add: create_notification_def Let_def db1_def n_def)
  from Cons.IH [OF step] obtain ns where
    "notifications db' = notifications db1 @ ns" "map n_user_id ns = map u_id us"
    "list_all (\<lambda>n. n_notification_type n = ''ticket_created'' \<and>
                       n_ticket_id n = Some (t_id t)) ns"
    by blast
  then have "notifications db' = notifications db @ (n # ns) \<and>
        map n_user_id (n # ns) = map u_id (u # us) \<and>
        list_all (\<lambda>n. n_notification_type n = ''ticket_created'' \<and>
                       n_ticket_id n = Some (t_id t)) (n # ns)"
    by (simp add: db1_def n_def)
  then show ?case by blast
qed

lemma notify_each_succeeds:
  "creator db t \<noteq> None \<Longrightarrow> category db t \<noteq> None \<Longrightarrow> \<exists>db'. notify_each now db t us = Inr db'"
proof (induction us arbitrary: db)
  case Nil
  then show ?case by simp
next
  case (Cons u us)
  then show ?case by (auto split: option.splits)
qed

lemma priority_of_value_value [simp]: "priority_of_value (priority_value p) = Some p"
  by (cases p) (simp_all add: priority_of_value_def)

lemma create_ticket_result:
  assumes "create_ticket now db s d c u p = (db', Inr ticket)"
  shows "tickets db' = tickets db @ [ticket] \<and>
         t_subject ticket = s \<and> t_description ticket = d \<and> t_category_id ticket = c \<and>
         t_created_by_id ticket = u \<and> t_priority ticket = p \<and>
         t_status ticket = OPEN \<and> t_upvotes ticket = 0 \<and> t_downvotes ticket = 0 \<and>
         t_resolved_at ticket = None \<and> t_closed_at ticket = None \<and>
         t_assigned_to_id ticket = None \<and>
         (\<exists>ns. notifications db' = notifications db @ ns \<and>
            map n_user_id ns = map u_id (users_to_notify db) \<and>
            list_all (\<lambda>n. n_notification_type n = ''ticket_created'' \<and>
                           n_ticket_id n = Some (t_id ticket)) ns)"
proof -
  define t0 where "t0 =
     \<lparr> t_id = next_id (map t_id (tickets db)), t_subject = s, t_description = d,
       t_status = OPEN, t_priority = p, t_created_by_id = u, t_assigned_to_id = None,
       t_category_id = c, t_created_at = now, t_updated_at = now, t_resolved_at = None,
       t_closed_at = None, t_upvotes = 0, t_downvotes = 0 \<rparr>"
  define db1 where "db1 = db\<lparr>tickets := tickets db @ [t0]\<rparr>"
  have eq: "create_ticket now db s d c u p =
      (case notify_each now db1 t0 (users_to_notify db1) of
         Inl e \<Rightarrow> (db1, Inl e) | Inr db2 \<Rightarrow> (db2, Inr t0))"
    by (simp only: create_ticket_def Let_def create_ticket_notification_def t0_def db1_def)
  from assms obtain
    ne: "notify_each now db1 t0 (users_to_notify db1) = Inr db'" and t: "ticket = t0"
    unfolding eq by (auto split: sum.splits)
  have u1: "users_to_notify db1 = users_to_notify db"
    by (simp add: users_to_notify_def db1_def)
  from notify_each_frame [OF ne] have tk: "tickets db' = tickets db @ [t0]"
    by (simp add: db1_def)
  have n1: "notifications db1 = notifications db" by (simp add: db1_def)
  from notify_each_notifications [OF ne] obtain ns where
    "notifications db' = notifications db @ ns"
    "map n_user_id ns = map u_id (users_to_notify db)"
    "list_all (\<lambda>n. n_notification_type n = ''ticket_created'' \<and>
                           n_ticket_id n = Some (t_id t0)) ns"
    unfolding u1 n1 by blast
  with tk t show ?thesis by (auto simp: t0_def)
qed

lemma create_ticket_succeeds:
  assumes "find (\<lambda>x. u_id x = u) (users db) \<noteq> None"
    and "find (\<lambda>x. c_id x = c) (categories db) \<noteq> None"
  shows "\<exists>db' ticket. create_ticket now db s d c u p = (db', Inr ticket)"
proof -
  define t0 where "t0 =
     \<lparr> t_id = next_id (map t_id (tickets db)), t_subject = s, t_description = d,
       t_status = OPEN, t_priority = p, t_created_by_id = u, t_assigned_to_id = None,
       t_category_id = c, t_created_at = now, t_updated_at = now, t_resolved_at = None,
       t_closed_at = None, t_upvotes = 0, t_downvotes = 0 \<rparr>"
  define db1 where "db1 = db\<lparr>tickets := tickets db @ [t0]\<rparr>"
  have eq: "create_ticket now db s d c u p =
      (case notify_each now db1 t0 (users_to_notify db1) of
         Inl e \<Rightarrow> (db1, Inl e) | Inr db2 \<Rightarrow> (db2, Inr t0))"
    by (simp only: create_ticket_def Let_def create_ticket_notification_def t0_def db1_def)
  have "creator db1 t0 \<noteq> None" "category db1 t0 \<noteq> None"
    using assms by (simp_all add: creator_def category_def db1_def t0_def)
  from notify_each_succeeds [OF this] obtain db2 where
    "notify_each now db1 t0 (users_to_notify db1) = Inr db2"
    by blast
  then show ?thesis unfolding eq by simp
qed

text \<open>
  What holds of C7. The ticket creation endpoint rejects a body in which the subject, the
  description or the category is absent, with status 400 and an unchanged database. A
  ticket that is created is appended with the given subject, description and category,
  status \<open>open\<close>, both counters \<open>0\<close> and no resolution time, and one notification of type
  \<open>ticket_created\<close> is appended for every active administrator and support agent.
\<close>

lemma field_value_Some: "field_value f = Some x \<longleftrightarrow> f = Value x"
  by (cases f) simp_all

lemma create_ticket_call_result:
  assumes "create_ticket_call now db so d_o co u p = (db', Inr ticket)"
  shows "\<exists>s d c. so = Some s \<and> d_o = Some d \<and> co = Some c \<and>
           create_ticket now db s d c u p = (db', Inr ticket)"
  using assms
  by (cases so; cases d_o; cases co) (simp_all add: create_ticket_call_def)

lemma api_create_ticket_created:
  assumes "api_create_ticket now db cu data = (db', resp)"
  shows
    "(b_subject data = Absent \<or> b_description data = Absent \<or> b_category_id data = Absent \<longrightarrow>
        resp = Failure 400 ''Missing required fields'' \<and> db' = db) \<and>
     (status_code resp = 201 \<longrightarrow>
        (\<exists>ticket ns.
           resp = Success 201 (to_dict_relations db' ticket) \<and>
           tickets db' = tickets db @ [ticket] \<and>
           Value (t_subject ticket) = b_subject data \<and>
           Value (t_description ticket) = b_description data \<and>
           Value (t_category_id ticket) = b_category_id data \<and>
           t_created_by_id ticket = cu_id cu \<and>
           t_status ticket = OPEN \<and> t_upvotes ticket = 0 \<and> t_downvotes ticket = 0 \<and>
           t_resolved_at ticket = None \<and>
           notifications db' = notifications db @ ns \<and>
           map n_user_id ns = map u_id (users_to_notify db) \<and>
           list_all (\<lambda>n. n_notification_type n = ''ticket_created'' \<and>
                          n_ticket_id n = Some (t_id ticket)) ns))"
proof -
  have missing: "resp = Failure 400 ''Missing required fields'' \<and> db' = db"
    if "b_subject data = Absent \<or> b_description data = Absent \<or> b_category_id data = Absent"
    using assms that by (auto simp: api_create_ticket_def)
  have created: "\<exists>ticket ns.
           resp = Success 201 (to_dict_relations db' ticket) \<and>
           tickets db' = tickets db @ [ticket] \<and>
           Value (t_subject ticket) = b_subject data \<and>
           Value (t_description ticket) = b_description data \<and>
           Value (t_category_id ticket) = b_category_id data \<and>
           t_created_by_id ticket = cu_id cu \<and>
           t_status ticket = OPEN \<and> t_upvotes ticket = 0 \<and> t_downvotes ticket = 0 \<and>
           t_resolved_at ticket = None \<and>
           notifications db' = notifications db @ ns \<and>
           map n_user_id ns = map u_id (users_to_notify db) \<and>
           list_all (\<lambda>n. n_notification_type n = ''ticket_created'' \<and>
                          n_ticket_id n = Some (t_id ticket)) ns"
    if ok: "status_code resp = 201"
  proof -
    from assms ok obtain p ticket where
      call: "create_ticket_call now db (field_value (b_subject data))
               (field_value (b_description data)) (field_value (b_category_id data))
               (cu_id cu) p = (db', Inr ticket)"
      and resp: "resp = Success 201 (to_dict_relations db' ticket)"
      by (auto simp: api_create_ticket_def internal_error_def
          split: option.splits if_splits prod.splits sum.splits)
    from create_ticket_call_result [OF call] obtain s d c where
      f: "field_value (b_subject data) = Some s" "field_value (b_description data) = Some d"
         "field_value (b_category_id data) = Some c"
      and ct: "create_ticket now db s d c (cu_id cu) p = (db', Inr ticket)"
      by blast
    have v: "b_subject data = Value s" "b_description data = Value d"
      "b_category_id data = Value c"
      using f by (simp_all add: field_value_Some)
    from create_ticket_result [OF ct] resp v show ?thesis by auto
  qed
  from missing created show ?thesis by blast
qed

text \<open>
  The scenario of the specification: the ticket \<open>Printer down\<close> of user 7 is created open,
  with both counters \<open>0\<close> and no resolution time, and the administrator and the agent are
  notified. A subject that is present as \<^verbatim>\<open>null\<close> is answered with status 500 and
  nothing is stored.
\<close>

lemma printer_down_scenario:
  "status_code (snd (api_create_ticket 10 empty_db end_user_7 printer_body)) = 201 \<and>
   map (\<lambda>t. (t_subject t, t_status t, t_upvotes t, t_downvotes t, t_resolved_at t))
     (tickets (fst (api_create_ticket 10 empty_db end_user_7 printer_body))) =
     [(''Printer down'', OPEN, 0, 0, None)] \<and>
   map n_user_id (notifications (fst (api_create_ticket 10 empty_db end_user_7 printer_body))) =
     [1, 2]"
  by code_simp

lemma null_subject_scenario:
  "api_create_ticket 10 empty_db end_user_7 null_body =
     (empty_db, Failure 500 ''Internal server error'')"
  by code_simp

text \<open>
  C7. An empty subject and an empty description are not rejected. The endpoint tests only
  that the fields are present (\<^verbatim>\<open>field in data\<close>), and \<^verbatim>\<open>create_ticket\<close> tests nothing:
  the ticket with the empty subject and description is stored and answered with status
  201. The comment endpoint, which tests its required text with \<^verbatim>\<open>not data.get(...)\<close>,
  rejects an empty content with status 400.
\<close>

theorem create_ticket_accepts_empty:
  "status_code (snd (api_create_ticket 20 example_db end_user_7 empty_body)) = 201 \<and>
   map (\<lambda>t. (t_id t, t_subject t, t_description t))
     (tickets (fst (api_create_ticket 20 example_db end_user_7 empty_body))) =
     [(1, ''Printer down'', ''...''), (2, [], [])] \<and>
   map_sum id t_id (snd (create_ticket 20 example_db [] [] 1 7 MEDIUM)) = Inr 2 \<and>
   status_code (snd (api_add_comment 20 example_db end_user_7 1
     \<lparr> b_content = Some [], b_is_internal = None \<rparr>)) = 400"
  by code_simp

subsection \<open>Access of end users\<close>

text \<open>
  What holds of C1: an end user with a non-zero id is listed only tickets of their own, and
  fetching or commenting on a ticket of another user is answered as not found.
\<close>

lemma set_insert_by [simp]: "set (insert_by le x xs) = insert x (set xs)"
  by (induction xs) auto

lemma set_order_by [simp]: "set (order_by key d rows) = set rows"
  unfolding order_by_def by (induction rows) simp_all

lemma set_apply_sorting:
  "apply_sorting db sb so q = Inr rows \<Longrightarrow> set rows = set q"
  by (auto simp: apply_sorting_def split: if_splits option.splits attribute.splits)

lemma set_paginate: "set (paginate offset limit rows) \<subseteq> set rows"
  by (auto simp: paginate_def Let_def dest: in_set_takeD in_set_dropD)

lemma end_user_listing_own:
  assumes "uid \<noteq> 0"
    and "get_tickets db (Some uid) (Some END_USER) status category_id search
           sort_by sort_order limit offset = Inr r"
  shows "list_all (\<lambda>d. td_created_by_id d = uid) (l_tickets r)"
proof -
  let ?q = "filtered_query db (Some uid) (Some END_USER) status category_id search"
  from assms(2) obtain rows where
    rows: "apply_sorting db sort_by sort_order ?q = Inr rows"
    and r: "l_tickets r = map (to_dict db) (paginate offset limit rows)"
    by (auto simp: get_tickets_def Let_def split: sum.splits)
  have "t_created_by_id t = uid" if "t \<in> set (paginate offset limit rows)" for t
  proof -
    from that set_paginate have "t \<in> set rows" by fastforce
    with set_apply_sorting [OF rows] have "t \<in> set ?q" by simp
    with assms(1) show ?thesis
      by (simp add: filtered_query_filter query_filter_def)
  qed
  then show ?thesis
    by (simp add: r list_all_iff to_dict_def)
qed

lemma end_user_fetch_denied:
  assumes "find (\<lambda>t. t_id t = ticket_id) (tickets db) = Some ticket"
    and "t_created_by_id ticket \<noteq> cu_id cu" and "cu_role cu = END_USER"
  shows "get_ticket_by_id db ticket_id (Some (cu_id cu)) (Some (cu_role cu)) = None"
    and "api_get_ticket db cu ticket_id = Failure 404 ''Ticket not found or access denied''"
    and "truthy_str (b_content data) \<Longrightarrow>
         api_add_comment now db cu ticket_id data =
           (db, Failure 404 ''Ticket not found or access denied'')"
  using assms by (simp_all add: get_ticket_by_id_def api_get_ticket_def api_add_comment_def)

text \<open>
  C1. Voting is not restricted to the tickets the actor created. The vote endpoint calls
  \<^verbatim>\<open>vote_ticket\<close> without the check by \<^verbatim>\<open>get_ticket_by_id\<close> that the comment and attachment
  endpoints make first: end user 8, to whom ticket 1 of user 7 is answered as not found,
  votes on it, and the vote is recorded.
\<close>

theorem end_user_votes_on_foreign_ticket:
  "cu_role end_user_8 = END_USER \<and>
   map t_created_by_id (tickets example_db) = [7] \<and>
   api_get_ticket example_db end_user_8 1 = Failure 404 ''Ticket not found or access denied'' \<and>
   status_code (snd (api_vote_ticket 20 example_db end_user_8 1 (Some True))) = 200 \<and>
   map_option (\<lambda>r. (action r, r_upvotes r, r_downvotes r))
     (payload (snd (api_vote_ticket 20 example_db end_user_8 1 (Some True)))) =
     Some (''added'', 1, 2) \<and>
   map (\<lambda>v. (v_ticket_id v, v_user_id v, v_is_upvote v))
     (votes (fst (api_vote_ticket 20 example_db end_user_8 1 (Some True)))) =
     [(1, 7, False), (1, 2, False), (1, 8, True)]"
  by code_simp

subsection \<open>Internal comments\<close>

text \<open>What holds of C6: an internal comment creates no notification.\<close>

lemma internal_comment_no_notification:
  "notifications (fst (add_comment now db ticket_id content author_id True)) = notifications db"
  by (simp add: add_comment_def Let_def create_comment_notification_def split: option.splits)


text \<open>
  C6. Internal comments are part of the ticket payload an end user receives. The ticket
  endpoint answers with \<^verbatim>\<open>to_dict(include_relations=True)\<close>, which lists every comment
  of the ticket: end user 7 reads the internal comment of the support agent on ticket 1.
\<close>

theorem end_user_sees_internal_comment:
  "cu_role end_user_7 = END_USER \<and>
   map_option (\<lambda>p. map (\<lambda>c. (cd_content c, cd_is_internal c, cd_author_role c)) (td_comments p))
     (payload (api_get_ticket example_db end_user_7 1)) =
     Some [(''Escalate to the vendor'', True, Some ''support_agent'')]"
  by code_simp

end
